theory Spec2Isabelle
  imports Complex_Main "HOL-Library.List_Lexorder" "HOL-Library.Char_ord" "HOL-Library.Multiset"
    "HOL-Library.Log_Nat"
begin

section \<open>Hours and wage tracker: the derived values and the store mutations\<close>

text \<open>
  The repository holds two versions of one React component \<open>HoursTrackerApp\<close>:
  \<open>src/unnamed/part_000\<close> (with input validation, inline editing and a sortable table) and
  \<open>src/unnamed/part_001\<close> (the "UK version", without validation). The derived values
  \<open>totalHours\<close>, \<open>totalEarnings\<close>, \<open>recommendedSavings\<close>, \<open>spendable\<close>, \<open>chartData\<close>,
  \<open>weeklyAverage\<close>, \<open>wishlistWithTime\<close> and the handler \<open>exportCSV\<close> have the same text in
  both files and are modelled once; \<open>addEntry\<close> and \<open>addWishlist\<close> differ and are modelled
  twice, the second with the suffix \<open>_uk\<close>.

  The first part computes on exact reals and on entries as the handlers write them. The
  second part models \<open>totalHours\<close>, \<open>chartData\<close> and \<open>wishlistWithTime\<close> again, on IEEE doubles
  and on values of any JSON type, for the properties that the rounding of doubles or the
  type of a stored value decides.
\<close>

subsection \<open>JavaScript numbers\<close>

text \<open>
  A JavaScript number is modelled as \<open>NaN\<close> or a finite real. The rounding of IEEE doubles,
  overflow to an infinity and the sign of zero are not modelled: arithmetic is exact.
\<close>

datatype jsnum = NaN | Fin real

fun isNaN :: "jsnum \<Rightarrow> bool" where
  "isNaN NaN = True"
| "isNaN (Fin x) = False"

fun jadd :: "jsnum \<Rightarrow> jsnum \<Rightarrow> jsnum" where
  "jadd (Fin x) (Fin y) = Fin (x + y)"
| "jadd _ _ = NaN"

fun jsub :: "jsnum \<Rightarrow> jsnum \<Rightarrow> jsnum" where
  "jsub (Fin x) (Fin y) = Fin (x - y)"
| "jsub _ _ = NaN"

fun jmul :: "jsnum \<Rightarrow> jsnum \<Rightarrow> jsnum" where
  "jmul (Fin x) (Fin y) = Fin (x * y)"
| "jmul _ _ = NaN"

text \<open>
  Division by zero gives an infinity (or \<open>NaN\<close> for 0/0) in JavaScript; an infinity is outside
  this model, and \<open>jdiv\<close> yields \<open>NaN\<close> there. No division of the program has a zero divisor:
  the divisors are the constants 100 and 604800000, \<open>weeks\<close> (at least 1 or \<open>NaN\<close>) and
  \<open>weeklyAverage\<close> behind its \<open>> 0\<close> test.
\<close>

fun jdiv :: "jsnum \<Rightarrow> jsnum \<Rightarrow> jsnum" where
  "jdiv (Fin x) (Fin y) = (if y = 0 then NaN else Fin (x / y))"
| "jdiv _ _ = NaN"

text \<open>The comparisons \<open><\<close>, \<open>>\<close>, \<open><=\<close> on numbers: false as soon as one side is \<open>NaN\<close>.\<close>

fun jlt :: "jsnum \<Rightarrow> jsnum \<Rightarrow> bool" where
  "jlt (Fin x) (Fin y) = (x < y)"
| "jlt _ _ = False"

fun jgt :: "jsnum \<Rightarrow> jsnum \<Rightarrow> bool" where
  "jgt (Fin x) (Fin y) = (x > y)"
| "jgt _ _ = False"

fun jle :: "jsnum \<Rightarrow> jsnum \<Rightarrow> bool" where
  "jle (Fin x) (Fin y) = (x \<le> y)"
| "jle _ _ = False"

text \<open>\<open>Math.ceil\<close> and \<open>Math.max\<close> of two numbers.\<close>

fun Math_ceil :: "jsnum \<Rightarrow> jsnum" where
  "Math_ceil (Fin x) = Fin (of_int \<lceil>x\<rceil>)"
| "Math_ceil NaN = NaN"

fun Math_max :: "jsnum \<Rightarrow> jsnum \<Rightarrow> jsnum" where
  "Math_max (Fin x) (Fin y) = Fin (max x y)"
| "Math_max _ _ = NaN"

text \<open>
  \<open>x || 0\<close> on a number: the number itself when it is truthy (neither 0 nor \<open>NaN\<close>),
  otherwise 0. \<open>Number\<close> applied to a number returns it, so \<open>Number(wage || 0)\<close> is
  \<open>or_zero wage\<close>.
\<close>

fun truthy :: "jsnum \<Rightarrow> bool" where
  "truthy NaN = False"
| "truthy (Fin x) = (x \<noteq> 0)"

definition or_zero :: "jsnum \<Rightarrow> jsnum" where
  "or_zero x = (if truthy x then x else Fin 0)"

subsection \<open>The stores\<close>

text \<open>
  An entry is \<open>{ id, date, hours, note }\<close>. The handlers store \<open>Number(hours)\<close> in \<open>hours\<close>, so
  the field holds a number; \<open>JSON.stringify\<close> writes \<open>NaN\<close> as \<open>null\<close>, so after a reload the
  field can be \<open>null\<close>: \<open>None\<close> stands for a missing (\<open>undefined\<close>) or \<open>null\<close> field.
  \<open>date\<close> and \<open>note\<close> are the strings of the form fields. (Stored entries whose \<open>hours\<close> is a
  value of another type are the subject of the second part.)
\<close>

record entry =
  id_e :: string
  date :: string
  hours :: "jsnum option"
  note_e :: string

record item =
  id_w :: string
  name :: string
  price :: jsnum

text \<open>
  \<open>x || 0\<close> where \<open>x\<close> is a number or \<open>undefined\<close>/\<open>null\<close> (\<open>None\<close>), as in \<open>e.hours || 0\<close> and
  \<open>map[m] || 0\<close>.
\<close>

fun opt_or_zero :: "jsnum option \<Rightarrow> jsnum" where
  "opt_or_zero None = Fin 0"
| "opt_or_zero (Some h) = or_zero h"

subsection \<open>Totals (part_000 lines 68-71, part_001 lines 53-56)\<close>

definition totalHours :: "entry list \<Rightarrow> jsnum" where
  "totalHours entries = foldl (\<lambda>s e. jadd s (opt_or_zero (hours e))) (Fin 0) entries"

definition totalEarnings :: "jsnum \<Rightarrow> jsnum \<Rightarrow> jsnum" where
  "totalEarnings totalHours' wage = jmul totalHours' (or_zero wage)"

definition recommendedSavings :: "jsnum \<Rightarrow> jsnum \<Rightarrow> jsnum" where
  "recommendedSavings totalEarnings' savePct = jmul totalEarnings' (jdiv (or_zero savePct) (Fin 100))"

definition spendable :: "jsnum \<Rightarrow> jsnum \<Rightarrow> jsnum" where
  "spendable totalEarnings' recommendedSavings' = jsub totalEarnings' recommendedSavings'"

text \<open>The value an \<open>hours\<close> field adds to a sum, as a real: 0 when missing, \<open>NaN\<close> or 0.\<close>

fun hours_value :: "jsnum option \<Rightarrow> real" where
  "hours_value None = 0"
| "hours_value (Some NaN) = 0"
| "hours_value (Some (Fin x)) = x"

subsection \<open>Dates\<close>

text \<open>
  \<open>new Date(s)\<close> for a date-only string \<open>YYYY-MM-DD\<close>, the value format of
  \<open><input type="date">\<close>: midnight UTC of that day, as milliseconds since 1970-01-01, with the
  day number computed as ECMAScript's \<open>DayFromYear\<close> and \<open>MakeDay\<close> do. A string of another
  shape, or naming no day of the calendar, gives an invalid date, whose number is \<open>NaN\<close>.
  (A browser accepts more shapes than this one; the properties of \<open>weeklyAverage\<close> below are
  stated for entries whose dates have this shape.)
\<close>

definition is_digit :: "char \<Rightarrow> bool" where
  "is_digit c = (CHR ''0'' \<le> c \<and> c \<le> CHR ''9'')"

definition digits_val :: "string \<Rightarrow> nat" where
  "digits_val ds = foldl (\<lambda>a c. 10 * a + (of_char c - 48)) 0 ds"

definition DayFromYear :: "int \<Rightarrow> int" where
  "DayFromYear y = 365 * (y - 1970) + (y - 1969) div 4 - (y - 1901) div 100 + (y - 1601) div 400"

definition InLeapYear :: "int \<Rightarrow> bool" where
  "InLeapYear y = (if y mod 4 \<noteq> 0 then False else if y mod 100 \<noteq> 0 then True else y mod 400 = 0)"

definition days_in_month :: "int \<Rightarrow> nat \<Rightarrow> nat" where
  "days_in_month y m =
     (if m = 2 then (if InLeapYear y then 29 else 28)
      else if m = 4 then 30 else if m = 6 then 30 else if m = 9 then 30 else if m = 11 then 30
      else 31)"

definition MakeDay :: "int \<Rightarrow> nat \<Rightarrow> nat \<Rightarrow> int" where
  "MakeDay y m d = DayFromYear y + (\<Sum>i\<leftarrow>[1..<m]. int (days_in_month y i)) + (int d - 1)"

definition parse_date :: "string \<Rightarrow> (int \<times> nat \<times> nat) option" where
  "parse_date s =
     (if length s = 10 \<and> s ! 4 = CHR ''-'' \<and> s ! 7 = CHR ''-''
         \<and> list_all is_digit (take 4 s) \<and> list_all is_digit (take 2 (drop 5 s))
         \<and> list_all is_digit (drop 8 s)
      then let y = int (digits_val (take 4 s));
               m = digits_val (take 2 (drop 5 s));
               d = digits_val (drop 8 s)
           in if 1 \<le> m \<and> m \<le> 12 \<and> 1 \<le> d \<and> d \<le> days_in_month y m then Some (y, m, d) else None
      else None)"

definition Date_new :: "string \<Rightarrow> jsnum" where
  "Date_new s = (case parse_date s of
                   None \<Rightarrow> NaN
                 | Some (y, m, d) \<Rightarrow> Fin (of_int (MakeDay y m d * 86400000)))"

subsection \<open>Weekly average pay (part_000 lines 82-89, part_001 lines 70-77)\<close>

text \<open>
  \<open>[...entries].sort((a, b) => a.date.localeCompare(b.date))\<close> is a stable sort on the \<open>date\<close>
  field: \<open>sort_key date\<close>. \<open>localeCompare\<close> is modelled as the lexicographic order of
  \<open>string\<close>, with which it agrees on strings of the shape \<open>YYYY-MM-DD\<close>. \<open>sorted[0]\<close> and
  \<open>sorted[sorted.length - 1]\<close> are read only when the list is not empty.
\<close>

definition weeklyAverage :: "entry list \<Rightarrow> jsnum \<Rightarrow> jsnum" where
  "weeklyAverage entries totalEarnings' =
     (if length entries = 0 then Fin 0
      else let sorted' = sort_key date entries;
               first = Date_new (date (hd sorted'));
               last' = Date_new (date (last sorted'));
               weeks = Math_max (Fin 1)
                         (Math_ceil (jdiv (jsub last' first) (Fin (1000 * 60 * 60 * 24 * 7))))
           in jdiv totalEarnings' weeks)"

text \<open>
  The specification's side: a date is well formed when it parses, \<open>day_of\<close> is its day number,
  and \<open>elapsedDays\<close> counts the days from the earliest to the latest date of a list, in the
  lexicographic order of the date strings.
\<close>

definition iso_date :: "string \<Rightarrow> bool" where
  "iso_date s = (parse_date s \<noteq> None)"

definition day_of :: "string \<Rightarrow> int" where
  "day_of s = (case parse_date s of None \<Rightarrow> 0 | Some (y, m, d) \<Rightarrow> MakeDay y m d)"

definition elapsedDays :: "entry list \<Rightarrow> int" where
  "elapsedDays es = day_of (Max (date ` set es)) - day_of (Min (date ` set es))"

subsection \<open>Wishlist projection (part_000 lines 91-95 and 368-376, part_001 lines 67, 79-83, 165)\<close>

text \<open>\<open>{ ...item, weeksNeeded }\<close>: the item with one more field.\<close>

record item_time = item +
  weeksNeeded :: jsnum

definition wishlistWithTime :: "item list \<Rightarrow> jsnum \<Rightarrow> jsnum \<Rightarrow> item_time list" where
  "wishlistWithTime wishlist' spendable' weeklyAverage' =
     map (\<lambda>item.
            let needed = jsub (price item) spendable';
                weeksNeeded' = (if jgt needed (Fin 0) \<and> jgt weeklyAverage' (Fin 0)
                                then Math_ceil (jdiv needed weeklyAverage') else Fin 0)
            in \<lparr>id_w = id_w item, name = name item, price = price item,
                weeksNeeded = weeksNeeded'\<rparr>)
         wishlist'"

text \<open>\<open>affordableItems\<close> of part_001: \<open>wishlist.filter((w) => w.price <= spendable)\<close>.\<close>

definition affordableItems :: "item list \<Rightarrow> jsnum \<Rightarrow> item list" where
  "affordableItems wishlist' spendable' = filter (\<lambda>w. jle (price w) spendable') wishlist'"

text \<open>
  What the list shows beside an item, in both files:
  \<open>w.weeksNeeded > 0 ? `${w.weeksNeeded} wks` : "now"\<close>.
\<close>

datatype time_label = Weeks jsnum | Now

definition label_of :: "item_time \<Rightarrow> time_label" where
  "label_of w = (if jgt (weeksNeeded w) (Fin 0) then Weeks (weeksNeeded w) else Now)"

subsection \<open>Form values and \<open>Number\<close>\<close>

text \<open>
  A form field's state is the number it was initialised with or the text of the input.
  \<open>Number(v)\<close>, \<open>isNaN(v)\<close> and \<open>v < 0\<close> all convert \<open>v\<close> with \<open>ToNumber\<close>. For a string this
  trims white space, reads the empty string as 0 and otherwise reads a signed decimal
  literal with an optional fraction and exponent; any other text is \<open>NaN\<close>. Two forms that
  JavaScript also reads are not covered and give \<open>NaN\<close> here: the literal \<open>Infinity\<close> and the
  integer literals \<open>0x..\<close>, \<open>0o..\<close>, \<open>0b..\<close>; a number input produces neither.
\<close>

datatype jsval = JNum jsnum | JStr string

definition is_ws :: "char \<Rightarrow> bool" where
  "is_ws c = (c \<in> set [CHR 0x09, CHR 0x0A, CHR 0x0B, CHR 0x0C, CHR 0x0D, CHR 0x20])"

definition trim :: "string \<Rightarrow> string" where
  "trim s = rev (dropWhile is_ws (rev (dropWhile is_ws s)))"

fun strip_sign :: "string \<Rightarrow> real \<times> string" where
  "strip_sign [] = (1, [])"
| "strip_sign (c # cs) =
     (if c = CHR ''-'' then (- 1, cs) else if c = CHR ''+'' then (1, cs) else (1, c # cs))"

definition exponent_part :: "real \<Rightarrow> string \<Rightarrow> jsnum" where
  "exponent_part m r =
     (case r of
        [] \<Rightarrow> Fin m
      | c # t \<Rightarrow>
          if c = CHR ''e'' \<or> c = CHR ''E''
          then (let (sg, ds) = strip_sign t
                in if ds = [] then NaN
                   else if list_all is_digit ds
                   then Fin (if sg < 0 then m / 10 ^ digits_val ds else m * 10 ^ digits_val ds)
                   else NaN)
          else NaN)"

definition unsigned_decimal :: "string \<Rightarrow> jsnum" where
  "unsigned_decimal s =
     (let ip = takeWhile is_digit s;
          r1 = dropWhile is_digit s;
          has_point = (case r1 of [] \<Rightarrow> False | c # t \<Rightarrow> c = CHR ''.'');
          fp = (if has_point then takeWhile is_digit (tl r1) else []);
          r2 = (if has_point then dropWhile is_digit (tl r1) else r1)
      in if ip = [] \<and> fp = [] then NaN
         else exponent_part (real (digits_val ip) + real (digits_val fp) / 10 ^ length fp) r2)"

definition StringToNumber :: "string \<Rightarrow> jsnum" where
  "StringToNumber s =
     (let t = trim s
      in if t = [] then Fin 0
         else let (sg, u) = strip_sign t
              in case unsigned_decimal u of NaN \<Rightarrow> NaN | Fin x \<Rightarrow> Fin (sg * x))"

fun ToNumber :: "jsval \<Rightarrow> jsnum" where
  "ToNumber (JNum n) = n"
| "ToNumber (JStr s) = StringToNumber s"

subsection \<open>Mutations of the entry store\<close>

text \<open>
  A handler that shows an \<open>alert\<close> and returns without calling the setter yields
  \<open>Inl (ValidationError message)\<close>; otherwise it yields \<open>Inr\<close> of the new collection, the
  value of the function passed to \<open>setEntries\<close> or \<open>setWishlist\<close>. The first argument \<open>uid\<close> is
  the string that the call \<open>uid()\<close> returns, that is
  \<open>Math.random().toString(36).slice(2, 9)\<close>: a random string, drawn without looking at the
  collection.
\<close>

datatype error = ValidationError string

text \<open>\<open>addEntry\<close> of part_000 (lines 119-133).\<close>

definition addEntry :: "string \<Rightarrow> string \<Rightarrow> jsval \<Rightarrow> string \<Rightarrow> entry list \<Rightarrow> error + entry list" where
  "addEntry uid date' hours' note' s =
     (if date' = [] then Inl (ValidationError ''Please select a date'')
      else if isNaN (ToNumber hours') \<or> jlt (ToNumber hours') (Fin 0)
      then Inl (ValidationError ''Please enter a valid positive number of hours'')
      else let newEntry = \<lparr>id_e = uid, date = date', hours = Some (ToNumber hours'), note_e = note'\<rparr>
           in Inr (sort_key date (s @ [newEntry])))"

text \<open>\<open>addEntry\<close> of part_001 (lines 85-91): no test comes before the insertion.\<close>

definition addEntry_uk :: "string \<Rightarrow> string \<Rightarrow> jsval \<Rightarrow> string \<Rightarrow> entry list \<Rightarrow> entry list" where
  "addEntry_uk uid date' hours' note' s =
     (let newEntry = \<lparr>id_e = uid, date = date', hours = Some (ToNumber hours'), note_e = note'\<rparr>
      in sort_key date (s @ [newEntry]))"

definition removeEntry :: "string \<Rightarrow> entry list \<Rightarrow> entry list" where
  "removeEntry i s = filter (\<lambda>e. id_e e \<noteq> i) s"

text \<open>\<open>updateEntryField\<close> of part_000 (lines 149-162); \<open>value\<close> is the text of the input.\<close>

definition updateEntryField :: "string \<Rightarrow> string \<Rightarrow> string \<Rightarrow> entry list \<Rightarrow> entry list" where
  "updateEntryField i field val s =
     map (\<lambda>e. if id_e e \<noteq> i then e
               else if field = ''hours''
               then (let n = StringToNumber val
                     in if isNaN n \<or> jlt n (Fin 0) then e else e\<lparr>hours := Some n\<rparr>)
               else if field = ''note'' then e\<lparr>note_e := val\<rparr>
               else e) s"

subsection \<open>Mutations of the wishlist\<close>

text \<open>\<open>addWishlist\<close> of part_000 (lines 164-178) and of part_001 (lines 97-103).\<close>

definition addWishlist :: "string \<Rightarrow> string \<Rightarrow> jsval \<Rightarrow> item list \<Rightarrow> error + item list" where
  "addWishlist uid itemName itemPrice s =
     (if trim itemName = [] then Inl (ValidationError ''Please enter item name'')
      else if isNaN (ToNumber itemPrice) \<or> jlt (ToNumber itemPrice) (Fin 0)
      then Inl (ValidationError ''Please enter a valid price'')
      else let w = \<lparr>id_w = uid, name = trim itemName, price = ToNumber itemPrice\<rparr>
           in Inr (s @ [w]))"

definition addWishlist_uk :: "string \<Rightarrow> string \<Rightarrow> jsval \<Rightarrow> item list \<Rightarrow> item list" where
  "addWishlist_uk uid itemName itemPrice s =
     (let w = \<lparr>id_w = uid, name = (if itemName = [] then ''Untitled'' else itemName),
               price = ToNumber itemPrice\<rparr>
      in s @ [w])"

definition removeWishlist :: "string \<Rightarrow> item list \<Rightarrow> item list" where
  "removeWishlist i s = filter (\<lambda>w. id_w w \<noteq> i) s"

subsection \<open>The application state and its transitions\<close>

text \<open>
  The four pieces of state that are persisted. A first run finds nothing in \<open>localStorage\<close>
  and starts from \<open>init\<close>. An action carries what its handler reads: the form fields, the
  answer to \<open>confirm\<close> and, for the two additions, the string that \<open>uid()\<close> returns.
\<close>

record state =
  entries :: "entry list"
  wishlist :: "item list"
  wage :: jsnum
  savePct :: jsnum

definition init :: state where
  "init = \<lparr>entries = [], wishlist = [], wage = Fin 15, savePct = Fin 20\<rparr>"

datatype action =
    AddEntry string string jsval string
  | RemoveEntry string
  | UpdateEntryField string string string
  | AddWishlist string string jsval
  | RemoveWishlist string
  | SetWage string
  | SetSavePct string
  | ClearAll bool

text \<open>The transitions of part_000.\<close>

fun step :: "state \<Rightarrow> action \<Rightarrow> state" where
  "step s (AddEntry u d h n) =
     (case addEntry u d h n (entries s) of Inl err \<Rightarrow> s | Inr es \<Rightarrow> s\<lparr>entries := es\<rparr>)"
| "step s (RemoveEntry i) = s\<lparr>entries := removeEntry i (entries s)\<rparr>"
| "step s (UpdateEntryField i f v) = s\<lparr>entries := updateEntryField i f v (entries s)\<rparr>"
| "step s (AddWishlist u n p) =
     (case addWishlist u n p (wishlist s) of Inl err \<Rightarrow> s | Inr ws \<Rightarrow> s\<lparr>wishlist := ws\<rparr>)"
| "step s (RemoveWishlist i) = s\<lparr>wishlist := removeWishlist i (wishlist s)\<rparr>"
| "step s (SetWage v) = s\<lparr>wage := StringToNumber v\<rparr>"
| "step s (SetSavePct v) = s\<lparr>savePct := StringToNumber v\<rparr>"
| "step s (ClearAll ok) = (if ok then init else s)"

text \<open>The transitions of part_001, which has no inline editing.\<close>

fun step_uk :: "state \<Rightarrow> action \<Rightarrow> state" where
  "step_uk s (AddEntry u d h n) = s\<lparr>entries := addEntry_uk u d h n (entries s)\<rparr>"
| "step_uk s (RemoveEntry i) = s\<lparr>entries := removeEntry i (entries s)\<rparr>"
| "step_uk s (UpdateEntryField i f v) = s"
| "step_uk s (AddWishlist u n p) = s\<lparr>wishlist := addWishlist_uk u n p (wishlist s)\<rparr>"
| "step_uk s (RemoveWishlist i) = s\<lparr>wishlist := removeWishlist i (wishlist s)\<rparr>"
| "step_uk s (SetWage v) = s\<lparr>wage := StringToNumber v\<rparr>"
| "step_uk s (SetSavePct v) = s\<lparr>savePct := StringToNumber v\<rparr>"
| "step_uk s (ClearAll ok) = (if ok then init else s)"

text \<open>
  Uniqueness of the ids of a state, and the condition under which a run keeps it: each
  addition draws an id that its collection does not hold at that moment.
\<close>

definition ids_unique :: "state \<Rightarrow> bool" where
  "ids_unique s = (distinct (map id_e (entries s)) \<and> distinct (map id_w (wishlist s)))"

fun fresh :: "state \<Rightarrow> action \<Rightarrow> bool" where
  "fresh s (AddEntry u d h n) = (u \<notin> set (map id_e (entries s)))"
| "fresh s (AddWishlist u n p) = (u \<notin> set (map id_w (wishlist s)))"
| "fresh s a = True"

fun fresh_run :: "(state \<Rightarrow> action \<Rightarrow> state) \<Rightarrow> state \<Rightarrow> action list \<Rightarrow> bool" where
  "fresh_run stp s [] = True"
| "fresh_run stp s (a # as) = (fresh s a \<and> fresh_run stp (stp s a) as)"

subsection \<open>CSV export (part_000 lines 183-190, part_001 lines 108-115)\<close>

text \<open>
  \<open>exportCSV\<close> builds the text \<open>rows.join("\n")\<close> and hands it to the browser as a download;
  the model returns the text. The template literal converts \<open>r.hours\<close> to a string with
  JavaScript's \<open>ToString\<close>, which is a parameter here: exact reals have no decimal rendering
  in general. \<open>(r.note || "")\<close> is \<open>or_empty\<close> on a string, and
  \<open>replace(/"/g, '""')\<close> doubles every double quote (\<open>CHR 0x22\<close>).
\<close>

definition escape_quotes :: "string \<Rightarrow> string" where
  "escape_quotes s = concat (map (\<lambda>c. if c = CHR 0x22 then [CHR 0x22, CHR 0x22] else [c]) s)"

definition or_empty :: "string \<Rightarrow> string" where
  "or_empty s = (if s = [] then [] else s)"

fun join :: "string \<Rightarrow> string list \<Rightarrow> string" where
  "join sep [] = []"
| "join sep [x] = x"
| "join sep (x # y # ys) = x @ sep @ join sep (y # ys)"

definition csv_row :: "(jsnum option \<Rightarrow> string) \<Rightarrow> entry \<Rightarrow> string" where
  "csv_row ToString r =
     date r @ '','' @ ToString (hours r) @ '','' @ [CHR 0x22]
       @ escape_quotes (or_empty (note_e r)) @ [CHR 0x22]"

definition exportCSV :: "(jsnum option \<Rightarrow> string) \<Rightarrow> entry list \<Rightarrow> string" where
  "exportCSV ToString entries' =
     join [CHR 0x0A] (''date,hours,note'' # map (csv_row ToString) entries')"

text \<open>
  The reader of the round trip. The repository only writes CSV, so the reader is the usual
  one (RFC 4180), with the line feed that \<open>exportCSV\<close> writes as the record separator: fields
  are separated by commas; a field that starts with a double quote runs to the next double
  quote that is not doubled, may hold commas and line feeds, and a doubled double quote in
  it stands for one. The accumulators are the field being read, the fields of the record
  being read and the records read so far.
\<close>

datatype csv_state = FieldStart | Unquoted | Quoted | QuoteSeen

fun parse_csv_from ::
  "csv_state \<Rightarrow> string \<Rightarrow> string list \<Rightarrow> string list list \<Rightarrow> string \<Rightarrow> string list list" where
  "parse_csv_from st cur row rows [] =
     (if st = FieldStart \<and> row = [] then rows else rows @ [row @ [cur]])"
| "parse_csv_from Quoted cur row rows (c # cs) =
     (if c = CHR 0x22 then parse_csv_from QuoteSeen cur row rows cs
      else parse_csv_from Quoted (cur @ [c]) row rows cs)"
| "parse_csv_from QuoteSeen cur row rows (c # cs) =
     (if c = CHR 0x22 then parse_csv_from Quoted (cur @ [c]) row rows cs
      else if c = CHR '','' then parse_csv_from FieldStart [] (row @ [cur]) rows cs
      else if c = CHR 0x0A then parse_csv_from FieldStart [] [] (rows @ [row @ [cur]]) cs
      else parse_csv_from Unquoted (cur @ [c]) row rows cs)"
| "parse_csv_from FieldStart cur row rows (c # cs) =
     (if c = CHR 0x22 then parse_csv_from Quoted [] row rows cs
      else if c = CHR '','' then parse_csv_from FieldStart [] (row @ [cur]) rows cs
      else if c = CHR 0x0A then parse_csv_from FieldStart [] [] (rows @ [row @ [cur]]) cs
      else parse_csv_from Unquoted (cur @ [c]) row rows cs)"
| "parse_csv_from Unquoted cur row rows (c # cs) =
     (if c = CHR '','' then parse_csv_from FieldStart [] (row @ [cur]) rows cs
      else if c = CHR 0x0A then parse_csv_from FieldStart [] [] (rows @ [row @ [cur]]) cs
      else parse_csv_from Unquoted (cur @ [c]) row rows cs)"

definition parse_csv :: "string \<Rightarrow> string list list" where
  "parse_csv s = parse_csv_from FieldStart [] [] [] s"

text \<open>A text that can stand unquoted in a CSV field: no comma, double quote or line feed.\<close>

definition csv_plain :: "string \<Rightarrow> bool" where
  "csv_plain s = list_all (\<lambda>c. c \<noteq> CHR '','' \<and> c \<noteq> CHR 0x22 \<and> c \<noteq> CHR 0x0A) s"

text \<open>The rows after the header, each behind its line feed (used in the proofs).\<close>

definition csv_tail :: "(jsnum option \<Rightarrow> string) \<Rightarrow> entry list \<Rightarrow> string" where
  "csv_tail ts es = concat (map (\<lambda>e. CHR 0x0A # csv_row ts e) es)"

section \<open>The same lines on IEEE doubles and on stored values\<close>

text \<open>
  The definitions above compute on exact reals and on entries as the handlers write them.
  Three results depend on more than that: the cent rounding of the chart and the week count
  of the wishlist depend on the rounding of double arithmetic, and the total of the hours
  depends on what \<open>JSON.parse\<close> delivers from \<open>localStorage\<close>, which can be a value of any
  JSON type. For these, the same source lines are modelled again on doubles and on stored
  values; the names carry the suffix \<open>64\<close>.
\<close>

subsection \<open>IEEE doubles\<close>

text \<open>
  A double is \<open>NaN\<close>, an infinity (\<open>dInf True\<close> is the positive one) or a real number; the
  operations return numbers that binary64 can represent. \<open>fl\<close> rounds a real to the nearest
  double, ties to the even significand: the unit \<open>u\<close> is the spacing of the doubles around
  \<open>x\<close> (\<open>2 ^ (e - 52)\<close> for the binary exponent \<open>e\<close> of \<open>x\<close>, and \<open>2 ^ -1074\<close> in the subnormal
  range), and a result of magnitude \<open>2 ^ 1024\<close> or more is an infinity. \<open>expo x\<close> is the binary
  exponent \<open>floor (log2 |x|)\<close>, computed on integers. The sign of zero is not modelled: \<open>-0\<close>
  is \<open>0\<close>, and a zero divisor counts as \<open>+0\<close> (none of the divisions below has one).
\<close>

datatype double = dNaN | dInf bool | dNum real

definition pow2 :: "int \<Rightarrow> real" where
  "pow2 k = (if 0 \<le> k then 2 ^ nat k else 1 / 2 ^ nat (- k))"

definition expo :: "real \<Rightarrow> int" where
  "expo x = (if 1 \<le> \<bar>x\<bar> then bitlen \<lfloor>\<bar>x\<bar>\<rfloor> - 1 else - bitlen (\<lceil>1 / \<bar>x\<bar>\<rceil> - 1))"

definition round_half_even :: "real \<Rightarrow> int" where
  "round_half_even q =
     (let f = \<lfloor>q\<rfloor>; d = q - of_int f
      in if d < 1 / 2 then f else if 1 / 2 < d then f + 1 else if even f then f else f + 1)"

definition fl :: "real \<Rightarrow> double" where
  "fl x =
     (if x = 0 then dNum 0
      else let u = pow2 (max (expo x) (- 1022) - 52);
               r = of_int (round_half_even (x / u)) * u
           in if 2 ^ 1024 \<le> \<bar>r\<bar> then dInf (0 < x) else dNum r)"

text \<open>The operators \<open>+\<close>, \<open>-\<close>, \<open>*\<close>, \<open>/\<close> and \<open>>\<close> on doubles.\<close>

fun fneg :: "double \<Rightarrow> double" where
  "fneg (dNum x) = dNum (- x)"
| "fneg (dInf a) = dInf (\<not> a)"
| "fneg dNaN = dNaN"

fun fadd :: "double \<Rightarrow> double \<Rightarrow> double" where
  "fadd (dNum x) (dNum y) = fl (x + y)"
| "fadd (dInf a) (dInf b) = (if a = b then dInf a else dNaN)"
| "fadd (dInf a) (dNum y) = dInf a"
| "fadd (dNum x) (dInf b) = dInf b"
| "fadd _ _ = dNaN"

definition fsub :: "double \<Rightarrow> double \<Rightarrow> double" where
  "fsub x y = fadd x (fneg y)"

fun fmul :: "double \<Rightarrow> double \<Rightarrow> double" where
  "fmul (dNum x) (dNum y) = fl (x * y)"
| "fmul (dInf a) (dInf b) = dInf (a = b)"
| "fmul (dInf a) (dNum y) = (if y = 0 then dNaN else dInf (a = (0 < y)))"
| "fmul (dNum x) (dInf b) = (if x = 0 then dNaN else dInf (b = (0 < x)))"
| "fmul _ _ = dNaN"

fun fdiv :: "double \<Rightarrow> double \<Rightarrow> double" where
  "fdiv (dNum x) (dNum y) =
     (if y = 0 then (if x = 0 then dNaN else dInf (0 < x)) else fl (x / y))"
| "fdiv (dNum x) (dInf b) = dNum 0"
| "fdiv (dInf a) (dNum y) = dInf (a = (0 \<le> y))"
| "fdiv _ _ = dNaN"

fun fgt :: "double \<Rightarrow> double \<Rightarrow> bool" where
  "fgt (dNum x) (dNum y) = (y < x)"
| "fgt (dInf a) (dNum y) = a"
| "fgt (dNum x) (dInf b) = (\<not> b)"
| "fgt (dInf a) (dInf b) = (a \<and> \<not> b)"
| "fgt _ _ = False"

text \<open>
  \<open>Math.round\<close> and \<open>Math.ceil\<close> are exact on a double: the nearest integer with halves going
  up, and the least integer not below.
\<close>

fun Math_round64 :: "double \<Rightarrow> double" where
  "Math_round64 (dNum x) = dNum (of_int \<lfloor>x + 1 / 2\<rfloor>)"
| "Math_round64 (dInf a) = dInf a"
| "Math_round64 dNaN = dNaN"

fun Math_ceil64 :: "double \<Rightarrow> double" where
  "Math_ceil64 (dNum x) = dNum (of_int \<lceil>x\<rceil>)"
| "Math_ceil64 (dInf a) = dInf a"
| "Math_ceil64 dNaN = dNaN"

text \<open>\<open>x || 0\<close> on a double: \<open>0\<close> and \<open>NaN\<close> are falsy.\<close>

fun truthy64 :: "double \<Rightarrow> bool" where
  "truthy64 (dNum x) = (x \<noteq> 0)"
| "truthy64 (dInf a) = True"
| "truthy64 dNaN = False"

definition or_zero64 :: "double \<Rightarrow> double" where
  "or_zero64 x = (if truthy64 x then x else dNum 0)"

fun opt_or_zero64 :: "double option \<Rightarrow> double" where
  "opt_or_zero64 None = dNum 0"
| "opt_or_zero64 (Some d) = or_zero64 d"

subsection \<open>Stored values\<close>

text \<open>
  A field of an object that \<open>JSON.parse\<close> returns is missing (it reads as \<open>undefined\<close>),
  \<open>null\<close>, a boolean, a number, a string, or an array or object. \<open>JObject n\<close> stands for an
  array or object, which is truthy, with \<open>n\<close> the number that \<open>Number\<close> makes of it.
  \<open>v || 0\<close> is \<open>or_zero_v\<close>, and \<open>Number(v)\<close> is \<open>ToNumber64\<close>. For a string, \<open>Number\<close> trims
  white space, reads the empty string as 0, reads an integer literal \<open>0x..\<close>, \<open>0o..\<close> or
  \<open>0b..\<close>, the word \<open>Infinity\<close> with an optional sign, or a signed decimal literal, rounded
  to the nearest double; any other text is \<open>NaN\<close>.
\<close>

datatype jvalue =
    JUndefined
  | JNull
  | JBool bool
  | JNumber double
  | JString string
  | JObject double

fun truthy_v :: "jvalue \<Rightarrow> bool" where
  "truthy_v JUndefined = False"
| "truthy_v JNull = False"
| "truthy_v (JBool b) = b"
| "truthy_v (JNumber d) = truthy64 d"
| "truthy_v (JString s) = (s \<noteq> [])"
| "truthy_v (JObject n) = True"

definition or_zero_v :: "jvalue \<Rightarrow> jvalue" where
  "or_zero_v v = (if truthy_v v then v else JNumber (dNum 0))"

definition radix_val :: "char \<Rightarrow> nat" where
  "radix_val c =
     (if is_digit c then of_char c - 48
      else if CHR ''a'' \<le> c \<and> c \<le> CHR ''f'' then of_char c - 87
      else if CHR ''A'' \<le> c \<and> c \<le> CHR ''F'' then of_char c - 55
      else 99)"

definition radix_of :: "char \<Rightarrow> nat" where
  "radix_of c =
     (if c = CHR ''x'' \<or> c = CHR ''X'' then 16
      else if c = CHR ''o'' \<or> c = CHR ''O'' then 8
      else if c = CHR ''b'' \<or> c = CHR ''B'' then 2
      else 0)"

definition radix_literal :: "string \<Rightarrow> nat option" where
  "radix_literal t =
     (case t of
        c0 # c1 # ds \<Rightarrow>
          if c0 = CHR ''0'' \<and> 0 < radix_of c1 \<and> 0 < length ds
             \<and> list_all (\<lambda>c. radix_val c < radix_of c1) ds
          then Some (foldl (\<lambda>a c. radix_of c1 * a + radix_val c) 0 ds)
          else None
      | _ \<Rightarrow> None)"

definition StringToNumber64 :: "string \<Rightarrow> double" where
  "StringToNumber64 s =
     (let t = trim s
      in if t = [] then dNum 0
         else case radix_literal t of
                Some n \<Rightarrow> fl (real n)
              | None \<Rightarrow>
                  let (sg, u) = strip_sign t
                  in if u = ''Infinity'' then dInf (0 < sg)
                     else case unsigned_decimal u of NaN \<Rightarrow> dNaN | Fin x \<Rightarrow> fl (sg * x))"

fun ToNumber64 :: "jvalue \<Rightarrow> double" where
  "ToNumber64 JUndefined = dNaN"
| "ToNumber64 JNull = dNum 0"
| "ToNumber64 (JBool b) = dNum (if b then 1 else 0)"
| "ToNumber64 (JNumber d) = d"
| "ToNumber64 (JString s) = StringToNumber64 s"
| "ToNumber64 (JObject n) = n"

text \<open>
  An entry and a wishlist item as stored: \<open>hours\<close> and \<open>price\<close> are values of any JSON type.
\<close>

record entry64 =
  id64 :: string
  date64 :: string
  hours64 :: jvalue
  note64 :: string

record item64 =
  id_w64 :: string
  name64 :: string
  price64 :: jvalue

record item_time64 = item64 +
  weeksNeeded64 :: double

subsection \<open>Total hours (part_000 line 68, part_001 line 53)\<close>

definition totalHours64 :: "entry64 list \<Rightarrow> double" where
  "totalHours64 entries' =
     foldl (\<lambda>s e. fadd s (ToNumber64 (or_zero_v (hours64 e)))) (dNum 0) entries'"

text \<open>What \<open>Number(v || 0)\<close> adds to the total, by the kind of value that \<open>v\<close> is.\<close>

definition contribution :: "jvalue \<Rightarrow> double" where
  "contribution v =
     (case v of
        JUndefined \<Rightarrow> dNum 0
      | JNull \<Rightarrow> dNum 0
      | JBool b \<Rightarrow> dNum (if b then 1 else 0)
      | JNumber d \<Rightarrow> (case d of dNaN \<Rightarrow> dNum 0 | dInf a \<Rightarrow> dInf a | dNum x \<Rightarrow> dNum x)
      | JString s \<Rightarrow> (if s = [] then dNum 0 else StringToNumber64 s)
      | JObject n \<Rightarrow> n)"

subsection \<open>Monthly chart series (part_000 lines 73-80, part_001 lines 58-65)\<close>

text \<open>
  The object \<open>map\<close> is an association list in insertion order: \<open>map[m]\<close> reads with \<open>map_of\<close>
  (\<open>None\<close> is \<open>undefined\<close>), and \<open>map[m] = v\<close> overwrites the property in place or appends a
  new one. \<open>Object.keys(map)\<close> lists the keys (moving integer-like keys to the front, which
  the \<open>sort()\<close> that follows makes invisible), and \<open>sort()\<close> without a comparator orders
  strings by their code units: the lexicographic order of \<open>string\<close>. \<open>slice(0, 7)\<close> is
  \<open>take 7\<close>.
\<close>

fun obj_set64 :: "(string \<times> double) list \<Rightarrow> string \<Rightarrow> double \<Rightarrow> (string \<times> double) list" where
  "obj_set64 [] k v = [(k, v)]"
| "obj_set64 ((k', v') # ps) k v =
     (if k' = k then (k, v) # ps else (k', v') # obj_set64 ps k v)"

record point64 =
  month64 :: string
  earnings64 :: double

definition chartData_loop64 ::
  "double \<Rightarrow> (string \<times> double) list \<Rightarrow> entry64 list \<Rightarrow> (string \<times> double) list" where
  "chartData_loop64 wage' = foldl (\<lambda>mp e.
     let m = take 7 (date64 e)
     in obj_set64 mp m (fadd (opt_or_zero64 (map_of mp m))
                             (fmul (ToNumber64 (or_zero_v (hours64 e))) (or_zero64 wage'))))"

definition chartData64 :: "entry64 list \<Rightarrow> double \<Rightarrow> point64 list" where
  "chartData64 entries' wage' =
     (let mp = chartData_loop64 wage' [] entries'
      in map (\<lambda>k. \<lparr>month64 = k,
                    earnings64 = fdiv (Math_round64 (case map_of mp k of
                                                       None \<Rightarrow> dNaN
                                                     | Some v \<Rightarrow> fmul v (dNum 100))) (dNum 100)\<rparr>)
             (sort (map fst mp)))"

text \<open>
  The specification's side: the year-month key of an entry, the running total of a month
  (the entries of the month in store order, each added as the loop adds it) and the
  rounding of a real to the cent with halves going up.
\<close>

definition month_key64 :: "entry64 \<Rightarrow> string" where
  "month_key64 e = take 7 (date64 e)"

definition month_acc64 :: "entry64 list \<Rightarrow> double \<Rightarrow> string \<Rightarrow> double" where
  "month_acc64 es w k =
     foldl (\<lambda>a e. fadd (or_zero64 a) (fmul (contribution (hours64 e)) (or_zero64 w)))
           (dNum 0) (filter (\<lambda>e. month_key64 e = k) es)"

definition round_cent :: "real \<Rightarrow> real" where
  "round_cent x = of_int \<lfloor>x * 100 + 1 / 2\<rfloor> / 100"

subsection \<open>Wishlist projection (part_000 lines 91-95, part_001 lines 79-83)\<close>

definition wishlistWithTime64 :: "item64 list \<Rightarrow> double \<Rightarrow> double \<Rightarrow> item_time64 list" where
  "wishlistWithTime64 wishlist' spendable' weeklyAverage' =
     map (\<lambda>item.
            let needed = fsub (ToNumber64 (price64 item)) spendable';
                weeksNeeded' = (if fgt needed (dNum 0) \<and> fgt weeklyAverage' (dNum 0)
                                then Math_ceil64 (fdiv needed weeklyAverage') else dNum 0)
            in \<lparr>id_w64 = id_w64 item, name64 = name64 item, price64 = price64 item,
                weeksNeeded64 = weeksNeeded'\<rparr>)
         wishlist'"

section \<open>Properties on exact reals\<close>

lemma opt_or_zero_Fin: "opt_or_zero h = Fin (hours_value h)"
  by (cases h rule: hours_value.cases) (simp_all add: or_zero_def)

lemma or_zero_Fin: "or_zero (Fin x) = Fin x"
  by (simp add: or_zero_def)

lemma foldl_hours_Fin:
  "foldl (\<lambda>s e. jadd s (opt_or_zero (hours e))) (Fin a) es
     = Fin (a + (\<Sum>e\<leftarrow>es. hours_value (hours e)))"
  by (induction es arbitrary: a) (simp_all add: opt_or_zero_Fin add.assoc)

lemma totalHours_Fin: "totalHours es = Fin (\<Sum>e\<leftarrow>es. hours_value (hours e))"
  by (simp add: totalHours_def foldl_hours_Fin)

text \<open>
  C1: for every list of entries and all real settings \<open>wage\<close> and \<open>savePct\<close> (also above 100),
  \<open>totalEarnings = totalHours * wage\<close>, \<open>recommendedSavings = totalEarnings * (savePct / 100)\<close>
  and \<open>spendable = totalEarnings - recommendedSavings\<close>; nothing is clamped, and the three are
  the exact reals \<open>h * w\<close>, \<open>h * w * (p / 100)\<close> and \<open>h * w - h * w * (p / 100)\<close> for the total
  hours \<open>h\<close>.
\<close>

theorem C1_summary_scalars:
  fixes es :: "entry list" and w p :: real
  defines "th \<equiv> totalHours es"
  defines "te \<equiv> totalEarnings th (Fin w)"
  defines "rs \<equiv> recommendedSavings te (Fin p)"
  defines "sp \<equiv> spendable te rs"
  defines "h \<equiv> (\<Sum>e\<leftarrow>es. hours_value (hours e))"
  shows "te = jmul th (Fin w)
       \<and> rs = jmul te (jdiv (Fin p) (Fin 100))
       \<and> sp = jsub te rs
       \<and> te = Fin (h * w)
       \<and> rs = Fin (h * w * (p / 100))
       \<and> sp = Fin (h * w - h * w * (p / 100))"
  unfolding th_def te_def rs_def sp_def h_def
  by (simp add: totalHours_Fin totalEarnings_def recommendedSavings_def spendable_def or_zero_Fin)

subsection \<open>Weekly average pay\<close>

lemma sorted_hd_Min:
  fixes ys :: "'a::linorder list"
  shows "sorted ys \<Longrightarrow> ys \<noteq> [] \<Longrightarrow> hd ys = Min (set ys)"
  by (cases ys) (auto intro!: Min_eqI[symmetric])

lemma sorted_last_Max:
  fixes ys :: "'a::linorder list"
  shows "sorted ys \<Longrightarrow> ys \<noteq> [] \<Longrightarrow> last ys = Max (set ys)"
proof (induction ys)
  case Nil
  then show ?case by simp
next
  case (Cons y ys)
  show ?case
  proof (cases "ys = []")
    case True
    then show ?thesis by simp
  next
    case False
    with Cons have "last ys = Max (set ys)" by simp
    moreover have "y \<le> Max (set ys)"
      using Cons.prems(1) False by (cases ys) (auto simp: Max_ge_iff)
    ultimately show ?thesis using False by (simp add: max_absorb2)
  qed
qed

lemma first_date_Min:
  assumes "es \<noteq> []"
  shows "date (hd (sort_key date es)) = Min (date ` set es)"
proof -
  let ?ys = "map date (sort_key date es)"
  have ne: "sort_key date es \<noteq> []"
    using assms by (metis length_sort length_0_conv)
  have "hd ?ys = Min (set ?ys)"
    by (rule sorted_hd_Min) (simp_all add: ne)
  then show ?thesis using ne by (simp add: hd_map)
qed

lemma last_date_Max:
  assumes "es \<noteq> []"
  shows "date (last (sort_key date es)) = Max (date ` set es)"
proof -
  let ?ys = "map date (sort_key date es)"
  have ne: "sort_key date es \<noteq> []"
    using assms by (metis length_sort length_0_conv)
  have "last ?ys = Max (set ?ys)"
    by (rule sorted_last_Max) (simp_all add: ne)
  then show ?thesis using ne by (simp add: last_map)
qed

lemma Date_new_iso: "iso_date s \<Longrightarrow> Date_new s = Fin (of_int (day_of s * 86400000))"
  by (auto simp: iso_date_def Date_new_def day_of_def)

lemma weeklyAverage_weeks:
  assumes ne: "es \<noteq> []" and iso: "\<And>e. e \<in> set es \<Longrightarrow> iso_date (date e)"
  shows "weeklyAverage es (Fin t) = Fin (t / of_int (max 1 \<lceil>real_of_int (elapsedDays es) / 7\<rceil>))"
proof -
  have "Min (date ` set es) \<in> date ` set es" "Max (date ` set es) \<in> date ` set es"
    using ne by (auto intro!: Min_in Max_in)
  then have "iso_date (Min (date ` set es))" "iso_date (Max (date ` set es))"
    using iso by auto
  then have f: "Date_new (date (hd (sort_key date es)))
                  = Fin (of_int (day_of (Min (date ` set es)) * 86400000))"
    and l: "Date_new (date (last (sort_key date es)))
                  = Fin (of_int (day_of (Max (date ` set es)) * 86400000))"
    using ne by (simp_all add: first_date_Min last_date_Max Date_new_iso)
  have d: "(real_of_int (day_of b) * 86400000 - real_of_int (day_of a) * 86400000) / 604800000
         = real_of_int (day_of b - day_of a) / 7" for a b
    by simp
  have w: "max 1 (real_of_int c) = real_of_int (max 1 c)" for c
    by simp
  have nz: "real_of_int (max 1 c) \<noteq> 0" for c
    by simp
  show ?thesis
    using ne unfolding weeklyAverage_def Let_def f l elapsedDays_def
    by (simp add: d w nz del: of_int_max)
qed

lemmas date_simps = Date_new_def parse_date_def is_digit_def digits_val_def MakeDay_def
  DayFromYear_def days_in_month_def InLeapYear_def upt_rec

text \<open>
  C3: the weekly average pay of an empty entry list is 0. For a non-empty list whose dates
  are calendar dates \<open>YYYY-MM-DD\<close> it is \<open>totalEarnings / weeks\<close> with
  \<open>weeks = max 1 (ceil (elapsedDays / 7))\<close>, where \<open>elapsedDays\<close> is the number of days from
  the lexicographically earliest to the lexicographically latest entry date; this holds for
  any total \<open>t\<close>, and so for the \<open>totalEarnings\<close> of the list at any real wage.
\<close>

theorem C3_weeklyAverage:
  "weeklyAverage [] te = Fin 0 \<and>
   (es \<noteq> [] \<and> (\<forall>e\<in>set es. iso_date (date e)) \<longrightarrow>
      weeklyAverage es (Fin t) = Fin (t / of_int (max 1 \<lceil>real_of_int (elapsedDays es) / 7\<rceil>))
    \<and> weeklyAverage es (totalEarnings (totalHours es) (Fin w))
        = jdiv (totalEarnings (totalHours es) (Fin w))
               (Fin (of_int (max 1 \<lceil>real_of_int (elapsedDays es) / 7\<rceil>))))"
proof (intro conjI impI)
  show "weeklyAverage [] te = Fin 0"
    by (simp add: weeklyAverage_def)
next
  assume a: "es \<noteq> [] \<and> (\<forall>e\<in>set es. iso_date (date e))"
  then show "weeklyAverage es (Fin t)
               = Fin (t / of_int (max 1 \<lceil>real_of_int (elapsedDays es) / 7\<rceil>))"
    by (intro weeklyAverage_weeks) auto
next
  assume a: "es \<noteq> [] \<and> (\<forall>e\<in>set es. iso_date (date e))"
  have nz: "real_of_int (max 1 c) \<noteq> 0" for c
    by simp
  have "totalEarnings (totalHours es) (Fin w) = Fin ((\<Sum>e\<leftarrow>es. hours_value (hours e)) * w)"
    by (simp add: totalHours_Fin totalEarnings_def or_zero_Fin)
  moreover have "weeklyAverage es (Fin t')
      = Fin (t' / of_int (max 1 \<lceil>real_of_int (elapsedDays es) / 7\<rceil>))" for t'
    using a by (intro weeklyAverage_weeks) auto
  ultimately show "weeklyAverage es (totalEarnings (totalHours es) (Fin w))
        = jdiv (totalEarnings (totalHours es) (Fin w))
               (Fin (of_int (max 1 \<lceil>real_of_int (elapsedDays es) / 7\<rceil>)))"
    by (simp add: nz del: of_int_max)
qed

text \<open>
  The example of the specification: entries on 2024-01-01 and 2024-01-15 with 10 hours in
  all and wage 10 are 14 days apart, which makes 2 weeks and a weekly average of 50.
\<close>

theorem C3_weeklyAverage_witness:
  "iso_date ''2024-01-01'' \<and> iso_date ''2024-01-15''
   \<and> elapsedDays [\<lparr>id_e = ''a'', date = ''2024-01-15'', hours = Some (Fin 4), note_e = ''''\<rparr>,
                  \<lparr>id_e = ''b'', date = ''2024-01-01'', hours = Some (Fin 6), note_e = ''''\<rparr>] = 14
   \<and> weeklyAverage [\<lparr>id_e = ''a'', date = ''2024-01-15'', hours = Some (Fin 4), note_e = ''''\<rparr>,
                    \<lparr>id_e = ''b'', date = ''2024-01-01'', hours = Some (Fin 6), note_e = ''''\<rparr>]
        (totalEarnings
           (totalHours [\<lparr>id_e = ''a'', date = ''2024-01-15'', hours = Some (Fin 4), note_e = ''''\<rparr>,
                        \<lparr>id_e = ''b'', date = ''2024-01-01'', hours = Some (Fin 6), note_e = ''''\<rparr>])
           (Fin 10)) = Fin 50"
proof -
  let ?es = "[\<lparr>id_e = ''a'', date = ''2024-01-15'', hours = Some (Fin 4), note_e = ''''\<rparr>,
              \<lparr>id_e = ''b'', date = ''2024-01-01'', hours = Some (Fin 6), note_e = ''''\<rparr>]"
  have i: "iso_date ''2024-01-01''" "iso_date ''2024-01-15''"
    by (simp_all add: iso_date_def date_simps)
  have d: "elapsedDays ?es = 14"
    by (simp add: elapsedDays_def day_of_def date_simps)
  have t: "totalEarnings (totalHours ?es) (Fin 10) = Fin 100"
    by (simp add: totalHours_def totalEarnings_def or_zero_def)
  have "?es \<noteq> [] \<and> (\<forall>e\<in>set ?es. iso_date (date e))"
    using i by simp
  with C3_weeklyAverage[of "Fin 0" ?es 100 10] show ?thesis
    using i unfolding d t by simp
qed

subsection \<open>Wishlist projection\<close>

text \<open>
  The example of the specification: with 40 spendable and a weekly average of 20, an item
  of 100 needs 3 weeks and an item of 30 needs none.
\<close>

lemma wishlist_example:
  "wishlistWithTime [\<lparr>id_w = ''a'', name = ''x'', price = Fin 100\<rparr>,
                     \<lparr>id_w = ''b'', name = ''y'', price = Fin 30\<rparr>] (Fin 40) (Fin 20)
   = [\<lparr>id_w = ''a'', name = ''x'', price = Fin 100, weeksNeeded = Fin 3\<rparr>,
      \<lparr>id_w = ''b'', name = ''y'', price = Fin 30, weeksNeeded = Fin 0\<rparr>]"
  by (simp add: wishlistWithTime_def)

text \<open>
  An item that \<open>affordableItems\<close> keeps is always shown as "now"; an item shown as "now" is
  one that \<open>affordableItems\<close> keeps as long as the weekly average is positive.
\<close>

lemma affordable_imp_now:
  "w \<in> set (wishlistWithTime ws sp wa) \<Longrightarrow> jle (price w) sp
   \<Longrightarrow> weeksNeeded w = Fin 0 \<and> label_of w = Now"
  by (cases sp; cases wa) (auto simp: wishlistWithTime_def Let_def label_of_def elim!: jle.elims)

lemma now_imp_affordable_when_earning:
  assumes "w \<in> set (wishlistWithTime ws (Fin s) (Fin a))" and "a > 0" and "price w = Fin p"
    and "label_of w = Now"
  shows "p \<le> s"
proof (rule ccontr)
  assume n: "\<not> p \<le> s"
  then have "(p - s) / a > 0"
    using assms(2) by simp
  then have "\<lceil>(p - s) / a\<rceil> > 0"
    by linarith
  moreover have "weeksNeeded w = Fin (of_int \<lceil>(p - s) / a\<rceil>)"
    using assms(1,2,3) n by (auto simp: wishlistWithTime_def Let_def)
  ultimately show False
    using assms(4) by (simp add: label_of_def)
qed

text \<open>
  C5 (where the code departs from it): with no entries, the default wage 15 and savings 20,
  \<open>spendable\<close> and \<open>weeklyAverage\<close> are 0; an item of price 100 then gets \<open>weeksNeeded = 0\<close> and
  is shown as "now", although \<open>price <= spendable\<close> is false and \<open>affordableItems\<close> leaves
  it out.
\<close>

theorem C5_now_without_affording:
  "spendable (totalEarnings (totalHours []) (Fin 15))
             (recommendedSavings (totalEarnings (totalHours []) (Fin 15)) (Fin 20)) = Fin 0
   \<and> weeklyAverage [] (totalEarnings (totalHours []) (Fin 15)) = Fin 0
   \<and> wishlistWithTime [\<lparr>id_w = ''w1'', name = ''Bike'', price = Fin 100\<rparr>] (Fin 0) (Fin 0)
       = [\<lparr>id_w = ''w1'', name = ''Bike'', price = Fin 100, weeksNeeded = Fin 0\<rparr>]
   \<and> label_of \<lparr>id_w = ''w1'', name = ''Bike'', price = Fin 100, weeksNeeded = Fin 0\<rparr> = Now
   \<and> affordableItems [\<lparr>id_w = ''w1'', name = ''Bike'', price = Fin 100\<rparr>] (Fin 0) = []"
  by (simp add: totalHours_def totalEarnings_def recommendedSavings_def spendable_def or_zero_def
      weeklyAverage_def wishlistWithTime_def label_of_def affordableItems_def)

subsection \<open>Adding an entry\<close>

lemmas num_simps = StringToNumber_def trim_def is_ws_def unsigned_decimal_def exponent_part_def
  is_digit_def digits_val_def

text \<open>
  \<open>addEntry\<close> of part_000 does what C6 says: it refuses an empty date and hours that convert
  to \<open>NaN\<close> or to a negative number, and otherwise inserts the entry and sorts by date.
\<close>

lemma addEntry_rejects:
  "date' = [] \<or> isNaN (ToNumber hours') \<or> jlt (ToNumber hours') (Fin 0)
   \<Longrightarrow> \<exists>msg. addEntry uid date' hours' note' s = Inl (ValidationError msg)"
  by (auto simp: addEntry_def)

lemma addEntry_inserts:
  assumes "date' \<noteq> []" and "ToNumber hours' = Fin x" and "0 \<le> x"
  shows "\<exists>s'. addEntry uid date' hours' note' s = Inr s'
      \<and> s' = sort_key date (s @ [\<lparr>id_e = uid, date = date', hours = Some (Fin x), note_e = note'\<rparr>])
      \<and> sorted (map date s')
      \<and> mset s' = mset s + {#\<lparr>id_e = uid, date = date', hours = Some (Fin x), note_e = note'\<rparr>#}"
  using assms by (simp add: addEntry_def Let_def)

text \<open>
  C6 (where the code departs from it): \<open>addEntry\<close> of part_001 inserts an entry with an empty
  date, and one with \<open>hours = -1\<close>, into the empty collection, where \<open>addEntry\<close> of part_000
  refuses both.
\<close>

theorem C6_addEntry_uk_unchecked:
  "addEntry_uk ''u1'' '''' (JStr ''8'') '''' []
     = [\<lparr>id_e = ''u1'', date = '''', hours = Some (Fin 8), note_e = ''''\<rparr>]
   \<and> addEntry_uk ''u1'' ''2024-01-01'' (JStr ''-1'') '''' []
     = [\<lparr>id_e = ''u1'', date = ''2024-01-01'', hours = Some (Fin (- 1)), note_e = ''''\<rparr>]
   \<and> addEntry ''u1'' '''' (JStr ''8'') '''' [] = Inl (ValidationError ''Please select a date'')
   \<and> addEntry ''u1'' ''2024-01-01'' (JStr ''-1'') '''' []
     = Inl (ValidationError ''Please enter a valid positive number of hours'')"
  by (simp add: addEntry_uk_def addEntry_def num_simps)

subsection \<open>Editing an entry\<close>

text \<open>
  C10: \<open>updateEntryField id field value\<close> keeps the length and the order of the collection
  (the ids and dates stay where they are), leaves every entry whose id is not \<open>id\<close> as it
  was, and changes nothing at all when \<open>field\<close> is neither \<open>"hours"\<close> nor \<open>"note"\<close>.
\<close>

theorem C10_updateEntryField_frame:
  "length (updateEntryField i field val s) = length s
   \<and> map id_e (updateEntryField i field val s) = map id_e s
   \<and> map date (updateEntryField i field val s) = map date s
   \<and> (\<forall>k < length s. id_e (s ! k) \<noteq> i \<longrightarrow> updateEntryField i field val s ! k = s ! k)
   \<and> (field \<noteq> ''hours'' \<and> field \<noteq> ''note'' \<longrightarrow> updateEntryField i field val s = s)"
proof (intro conjI allI impI)
  show "length (updateEntryField i field val s) = length s"
    by (simp add: updateEntryField_def)
  show "map id_e (updateEntryField i field val s) = map id_e s"
    by (simp add: updateEntryField_def Let_def)
  show "map date (updateEntryField i field val s) = map date s"
    by (simp add: updateEntryField_def Let_def)
  show "updateEntryField i field val s ! k = s ! k" if "k < length s" "id_e (s ! k) \<noteq> i" for k
    using that by (simp add: updateEntryField_def)
  show "updateEntryField i field val s = s" if "field \<noteq> ''hours'' \<and> field \<noteq> ''note''"
    using that by (simp add: updateEntryField_def map_idI)
qed

theorem C10_updateEntryField_frame_witness:
  "updateEntryField ''b'' ''hours'' ''3.5''
     [\<lparr>id_e = ''a'', date = ''2024-01-01'', hours = Some (Fin 6), note_e = ''x''\<rparr>,
      \<lparr>id_e = ''b'', date = ''2024-01-15'', hours = Some (Fin 4), note_e = ''y''\<rparr>] ! 0
     = \<lparr>id_e = ''a'', date = ''2024-01-01'', hours = Some (Fin 6), note_e = ''x''\<rparr>
   \<and> updateEntryField ''b'' ''date'' ''2024-02-02''
     [\<lparr>id_e = ''a'', date = ''2024-01-01'', hours = Some (Fin 6), note_e = ''x''\<rparr>,
      \<lparr>id_e = ''b'', date = ''2024-01-15'', hours = Some (Fin 4), note_e = ''y''\<rparr>]
     = [\<lparr>id_e = ''a'', date = ''2024-01-01'', hours = Some (Fin 6), note_e = ''x''\<rparr>,
        \<lparr>id_e = ''b'', date = ''2024-01-15'', hours = Some (Fin 4), note_e = ''y''\<rparr>]"
proof -
  let ?s = "[\<lparr>id_e = ''a'', date = ''2024-01-01'', hours = Some (Fin 6), note_e = ''x''\<rparr>,
             \<lparr>id_e = ''b'', date = ''2024-01-15'', hours = Some (Fin 4), note_e = ''y''\<rparr>]"
  from C10_updateEntryField_frame[of "''b''" "''hours''" "''3.5''" ?s]
  have "\<forall>k < length ?s. id_e (?s ! k) \<noteq> ''b''
          \<longrightarrow> updateEntryField ''b'' ''hours'' ''3.5'' ?s ! k = ?s ! k"
    by blast
  then have a: "updateEntryField ''b'' ''hours'' ''3.5'' ?s ! 0 = ?s ! 0"
    by simp
  from C10_updateEntryField_frame[of "''b''" "''date''" "''2024-02-02''" ?s]
  have b: "updateEntryField ''b'' ''date'' ''2024-02-02'' ?s = ?s"
    by simp
  from a b show ?thesis by simp
qed

text \<open>What the edit does to the entry it names, for reference.\<close>

lemma updateEntryField_example:
  "updateEntryField ''b'' ''hours'' ''3.5''
     [\<lparr>id_e = ''a'', date = ''2024-01-01'', hours = Some (Fin 6), note_e = ''x''\<rparr>,
      \<lparr>id_e = ''b'', date = ''2024-01-15'', hours = Some (Fin 4), note_e = ''y''\<rparr>]
   = [\<lparr>id_e = ''a'', date = ''2024-01-01'', hours = Some (Fin 6), note_e = ''x''\<rparr>,
      \<lparr>id_e = ''b'', date = ''2024-01-15'', hours = Some (Fin (7 / 2)), note_e = ''y''\<rparr>]
   \<and> updateEntryField ''b'' ''hours'' ''-2''
     [\<lparr>id_e = ''b'', date = ''2024-01-15'', hours = Some (Fin 4), note_e = ''y''\<rparr>]
   = [\<lparr>id_e = ''b'', date = ''2024-01-15'', hours = Some (Fin 4), note_e = ''y''\<rparr>]"
  by (simp add: updateEntryField_def num_simps)

subsection \<open>Uniqueness of ids\<close>

lemma distinct_map_sort_key:
  "distinct (map f (sort_key g xs)) = distinct (map f xs)"
proof -
  have "mset (map f (sort_key g xs)) = mset (map f xs)"
    by simp
  then show ?thesis
    by (rule mset_eq_imp_distinct_iff)
qed

lemma distinct_map_removeEntry:
  "distinct (map id_e s) \<Longrightarrow> distinct (map id_e (removeEntry i s))"
  by (simp add: removeEntry_def distinct_map_filter)

lemma distinct_map_removeWishlist:
  "distinct (map id_w s) \<Longrightarrow> distinct (map id_w (removeWishlist i s))"
  by (simp add: removeWishlist_def distinct_map_filter)

lemma map_id_updateEntryField: "map id_e (updateEntryField i f v s) = map id_e s"
  by (simp add: updateEntryField_def Let_def)

lemma ids_unique_init: "ids_unique init"
  by (simp add: ids_unique_def init_def)

lemma step_keeps_ids:
  "ids_unique s \<Longrightarrow> fresh s a \<Longrightarrow> ids_unique (step s a)"
  by (cases a)
     (auto simp: ids_unique_def addEntry_def addWishlist_def Let_def distinct_map_sort_key
        distinct_map_removeEntry distinct_map_removeWishlist map_id_updateEntryField
        ids_unique_init[unfolded ids_unique_def])

lemma step_uk_keeps_ids:
  "ids_unique s \<Longrightarrow> fresh s a \<Longrightarrow> ids_unique (step_uk s a)"
  by (cases a)
     (auto simp: ids_unique_def addEntry_uk_def addWishlist_uk_def Let_def distinct_map_sort_key
        distinct_map_removeEntry distinct_map_removeWishlist
        ids_unique_init[unfolded ids_unique_def])

lemma run_keeps_ids:
  assumes "\<And>s a. ids_unique s \<Longrightarrow> fresh s a \<Longrightarrow> ids_unique (stp s a)"
  shows "ids_unique s \<Longrightarrow> fresh_run stp s acts \<Longrightarrow> ids_unique (foldl stp s acts)"
  by (induction acts arbitrary: s) (simp_all add: assms)

text \<open>
  C9 as stated fails: \<open>uid()\<close> is random and nothing compares its result with the ids in
  use, so two additions that draw the same string leave two entries with one id.
\<close>

theorem C9_duplicate_id_counterexample:
  "\<not> ids_unique (foldl step init
        [AddEntry ''k3x9q2a'' ''2024-01-01'' (JStr ''8'') '''',
         AddEntry ''k3x9q2a'' ''2024-01-02'' (JStr ''8'') ''''])"
  by (simp add: ids_unique_def init_def addEntry_def num_simps)

text \<open>
  C9, amended: in both versions, every state reached from the empty store by a run in which
  each addition draws an id that its collection does not hold at that moment has unique ids
  in both collections; in particular a removal, an edit, a change of a setting and a
  clearing keep the ids unique, and so does an addition whose id is new.
\<close>

theorem C9_ids_unique_when_fresh:
  "(fresh_run step init acts \<longrightarrow> ids_unique (foldl step init acts))
   \<and> (fresh_run step_uk init acts \<longrightarrow> ids_unique (foldl step_uk init acts))
   \<and> (ids_unique s \<and> fresh s a \<longrightarrow> ids_unique (step s a) \<and> ids_unique (step_uk s a))"
  using run_keeps_ids[of step init acts, OF step_keeps_ids ids_unique_init]
    run_keeps_ids[of step_uk init acts, OF step_uk_keeps_ids ids_unique_init]
    step_keeps_ids[of s a] step_uk_keeps_ids[of s a]
  by blast

theorem C9_ids_unique_when_fresh_witness:
  "fresh_run step init
     [AddEntry ''k3x9q2a'' ''2024-01-02'' (JStr ''8'') '''',
      AddEntry ''b7m1z0c'' ''2024-01-01'' (JStr ''2.5'') ''late'',
      AddWishlist ''p4'' ''Bike'' (JStr ''100''),
      UpdateEntryField ''k3x9q2a'' ''hours'' ''7'',
      RemoveEntry ''b7m1z0c'']
   \<and> ids_unique (foldl step init
     [AddEntry ''k3x9q2a'' ''2024-01-02'' (JStr ''8'') '''',
      AddEntry ''b7m1z0c'' ''2024-01-01'' (JStr ''2.5'') ''late'',
      AddWishlist ''p4'' ''Bike'' (JStr ''100''),
      UpdateEntryField ''k3x9q2a'' ''hours'' ''7'',
      RemoveEntry ''b7m1z0c''])"
proof -
  let ?acts = "[AddEntry ''k3x9q2a'' ''2024-01-02'' (JStr ''8'') '''',
      AddEntry ''b7m1z0c'' ''2024-01-01'' (JStr ''2.5'') ''late'',
      AddWishlist ''p4'' ''Bike'' (JStr ''100''),
      UpdateEntryField ''k3x9q2a'' ''hours'' ''7'',
      RemoveEntry ''b7m1z0c'']"
  have f: "fresh_run step init ?acts"
    by (simp add: init_def addEntry_def addWishlist_def removeEntry_def updateEntryField_def
        num_simps)
  with C9_ids_unique_when_fresh[of ?acts] show ?thesis
    by blast
qed

subsection \<open>CSV export\<close>

lemma join_tail: "join [CHR 0x0A] (h # map (csv_row ts) es) = h @ csv_tail ts es"
  by (induction es arbitrary: h) (simp_all add: csv_tail_def)

lemma plain_then_comma:
  "csv_plain s \<Longrightarrow> st = FieldStart \<or> st = Unquoted \<Longrightarrow>
   parse_csv_from st cur row rows (s @ CHR '','' # rest)
     = parse_csv_from FieldStart [] (row @ [cur @ s]) rows rest"
  by (induction s arbitrary: st cur) (auto simp: csv_plain_def)

lemma quoted_run:
  "parse_csv_from Quoted cur row rows (escape_quotes n @ rest)
     = parse_csv_from Quoted (cur @ n) row rows rest"
  by (induction n arbitrary: cur) (simp_all add: escape_quotes_def)

lemma parse_row:
  assumes "csv_plain (date e)" "csv_plain (ts (hours e))"
  shows "parse_csv_from FieldStart [] [] rows (csv_row ts e @ rest)
     = parse_csv_from QuoteSeen (note_e e) [date e, ts (hours e)] rows rest"
  using assms
  by (simp add: csv_row_def plain_then_comma quoted_run or_empty_def)

lemma parse_tail:
  assumes "\<And>e. e \<in> set es \<Longrightarrow> csv_plain (date e) \<and> csv_plain (ts (hours e))"
    and "st = Unquoted \<or> st = QuoteSeen"
  shows "parse_csv_from st cur row rows (csv_tail ts es)
     = rows @ [row @ [cur]] @ map (\<lambda>e. [date e, ts (hours e), note_e e]) es"
  using assms
proof (induction es arbitrary: st cur row rows)
  case Nil
  then show ?case by (auto simp: csv_tail_def)
next
  case (Cons e es)
  have "parse_csv_from st cur row rows (csv_tail ts (e # es))
      = parse_csv_from FieldStart [] [] (rows @ [row @ [cur]]) (csv_row ts e @ csv_tail ts es)"
    using Cons.prems(2) by (auto simp: csv_tail_def)
  also have "\<dots> = parse_csv_from QuoteSeen (note_e e) [date e, ts (hours e)]
                     (rows @ [row @ [cur]]) (csv_tail ts es)"
    using Cons.prems(1)[of e] by (simp add: parse_row)
  also have "\<dots> = (rows @ [row @ [cur]]) @ [[date e, ts (hours e)] @ [note_e e]]
                     @ map (\<lambda>e. [date e, ts (hours e), note_e e]) es"
    using Cons.prems(1) by (intro Cons.IH) auto
  finally show ?case by simp
qed

lemma parse_exportCSV:
  assumes "\<And>e. e \<in> set es \<Longrightarrow> csv_plain (date e) \<and> csv_plain (ts (hours e))"
  shows "parse_csv (exportCSV ts es)
     = [''date'', ''hours'', ''note''] # map (\<lambda>e. [date e, ts (hours e), note_e e]) es"
proof -
  have "parse_csv (exportCSV ts es)
      = parse_csv_from Unquoted ''note'' [''date'', ''hours''] [] (csv_tail ts es)"
    by (simp add: parse_csv_def exportCSV_def join_tail)
  also have "\<dots> = [] @ [[''date'', ''hours''] @ [''note'']]
                     @ map (\<lambda>e. [date e, ts (hours e), note_e e]) es"
    using assms by (intro parse_tail) auto
  finally show ?thesis by simp
qed

text \<open>A date of the shape \<open>YYYY-MM-DD\<close> can stand unquoted.\<close>

lemma digit_plain: "is_digit c \<Longrightarrow> c \<noteq> CHR '','' \<and> c \<noteq> CHR 0x22 \<and> c \<noteq> CHR 0x0A"
  by (auto simp: is_digit_def)

lemma iso_date_plain: "iso_date s \<Longrightarrow> csv_plain s"
proof -
  assume "iso_date s"
  then have l: "length s = 10" and h: "s ! 4 = CHR ''-''" "s ! 7 = CHR ''-''"
    and d: "list_all is_digit (take 4 s)" "list_all is_digit (take 2 (drop 5 s))"
      "list_all is_digit (drop 8 s)"
    by (auto simp: iso_date_def parse_date_def split: if_splits)
  have a: "drop 4 s = s ! 4 # drop 5 s" and b: "drop 7 s = s ! 7 # drop 8 s"
    using l Cons_nth_drop_Suc[of 4 s] Cons_nth_drop_Suc[of 7 s] by simp_all
  have c: "take 2 (drop 5 s) @ drop 7 s = drop 5 s"
    using append_take_drop_id[of 2 "drop 5 s"] by simp
  have "take 4 s @ [s ! 4] @ take 2 (drop 5 s) @ [s ! 7] @ drop 8 s
      = take 4 s @ (s ! 4 # (take 2 (drop 5 s) @ (s ! 7 # drop 8 s)))"
    by simp
  also have "\<dots> = take 4 s @ (s ! 4 # (take 2 (drop 5 s) @ drop 7 s))"
    by (simp only: b)
  also have "\<dots> = take 4 s @ drop 4 s"
    by (simp only: c a)
  also have "\<dots> = s"
    by simp
  finally have "s = take 4 s @ [s ! 4] @ take 2 (drop 5 s) @ [s ! 7] @ drop 8 s"
    by simp
  then have "csv_plain s = csv_plain (take 4 s @ [s ! 4] @ take 2 (drop 5 s) @ [s ! 7] @ drop 8 s)"
    by simp
  also have "\<dots>"
    using d h unfolding csv_plain_def list_all_append
    by (auto simp: list_all_iff digit_plain)
  finally show ?thesis .
qed

text \<open>
  C8: for every list of entries, the exported text is the header \<open>date,hours,note\<close> followed
  by one row per entry, in store order and each behind a line feed, made of the date, the
  hours as text and the note between double quotes with every double quote in it doubled.
  When the dates and the rendered hours hold no comma, double quote or line feed (every
  date \<open>YYYY-MM-DD\<close> and every number rendering is such a text), reading the text back gives
  the header and, for every entry, exactly its date, its hours as text and its note, double
  quotes, commas and line feeds in the note included; a reader \<open>rd\<close> of numbers that inverts
  the rendering on the stored hours recovers the tuples \<open>(date, hours, note)\<close>.
\<close>

theorem C8_exportCSV_roundtrip:
  "exportCSV ts es
     = ''date,hours,note''
       @ concat (map (\<lambda>e. [CHR 0x0A] @ date e @ '','' @ ts (hours e) @ '','' @ [CHR 0x22]
                            @ escape_quotes (note_e e) @ [CHR 0x22]) es)
   \<and> ((\<forall>e\<in>set es. csv_plain (date e) \<and> csv_plain (ts (hours e))) \<longrightarrow>
        parse_csv (exportCSV ts es)
          = [''date'', ''hours'', ''note''] # map (\<lambda>e. [date e, ts (hours e), note_e e]) es
      \<and> ((\<forall>e\<in>set es. rd (ts (hours e)) = hours e) \<longrightarrow>
           map (\<lambda>f. (f ! 0, rd (f ! 1), f ! 2)) (tl (parse_csv (exportCSV ts es)))
             = map (\<lambda>e. (date e, hours e, note_e e)) es))"
proof (intro conjI impI)
  show "exportCSV ts es
     = ''date,hours,note''
       @ concat (map (\<lambda>e. [CHR 0x0A] @ date e @ '','' @ ts (hours e) @ '','' @ [CHR 0x22]
                            @ escape_quotes (note_e e) @ [CHR 0x22]) es)"
    unfolding exportCSV_def join_tail csv_tail_def csv_row_def or_empty_def by simp
next
  assume "\<forall>e\<in>set es. csv_plain (date e) \<and> csv_plain (ts (hours e))"
  then show "parse_csv (exportCSV ts es)
          = [''date'', ''hours'', ''note''] # map (\<lambda>e. [date e, ts (hours e), note_e e]) es"
    by (intro parse_exportCSV) auto
next
  assume p: "\<forall>e\<in>set es. csv_plain (date e) \<and> csv_plain (ts (hours e))"
    and r: "\<forall>e\<in>set es. rd (ts (hours e)) = hours e"
  have "parse_csv (exportCSV ts es)
          = [''date'', ''hours'', ''note''] # map (\<lambda>e. [date e, ts (hours e), note_e e]) es"
    using p by (intro parse_exportCSV) auto
  then show "map (\<lambda>f. (f ! 0, rd (f ! 1), f ! 2)) (tl (parse_csv (exportCSV ts es)))
             = map (\<lambda>e. (date e, hours e, note_e e)) es"
    using r by simp
qed

text \<open>Two entries, the first with a note that holds double quotes and a comma.\<close>

theorem C8_exportCSV_roundtrip_witness:
  "exportCSV (\<lambda>h. if h = Some (Fin 8) then ''8'' else ''2.5'')
     [\<lparr>id_e = ''a'', date = ''2024-01-05'', hours = Some (Fin 8),
        note_e = ''said '' @ [CHR 0x22] @ ''hi'' @ [CHR 0x22] @ '', left''\<rparr>,
      \<lparr>id_e = ''b'', date = ''2024-01-20'', hours = Some (Fin (5 / 2)), note_e = ''''\<rparr>]
   = ''date,hours,note'' @ [CHR 0x0A]
     @ ''2024-01-05,8,'' @ [CHR 0x22] @ ''said '' @ [CHR 0x22, CHR 0x22] @ ''hi''
     @ [CHR 0x22, CHR 0x22] @ '', left'' @ [CHR 0x22] @ [CHR 0x0A]
     @ ''2024-01-20,2.5,'' @ [CHR 0x22, CHR 0x22]
   \<and> map (\<lambda>f. (f ! 0, (if f ! 1 = ''8'' then Some (Fin 8) else Some (Fin (5 / 2))), f ! 2))
       (tl (parse_csv (exportCSV (\<lambda>h. if h = Some (Fin 8) then ''8'' else ''2.5'')
         [\<lparr>id_e = ''a'', date = ''2024-01-05'', hours = Some (Fin 8),
            note_e = ''said '' @ [CHR 0x22] @ ''hi'' @ [CHR 0x22] @ '', left''\<rparr>,
          \<lparr>id_e = ''b'', date = ''2024-01-20'', hours = Some (Fin (5 / 2)), note_e = ''''\<rparr>])))
     = [(''2024-01-05'', Some (Fin 8), ''said '' @ [CHR 0x22] @ ''hi'' @ [CHR 0x22] @ '', left''),
        (''2024-01-20'', Some (Fin (5 / 2)), '''')]"
proof -
  let ?ts = "\<lambda>h. if h = Some (Fin 8) then ''8'' else ''2.5''"
  let ?rd = "\<lambda>t. if t = ''8'' then Some (Fin 8) else Some (Fin (5 / 2))"
  let ?es = "[\<lparr>id_e = ''a'', date = ''2024-01-05'', hours = Some (Fin 8),
                note_e = ''said '' @ [CHR 0x22] @ ''hi'' @ [CHR 0x22] @ '', left''\<rparr>,
              \<lparr>id_e = ''b'', date = ''2024-01-20'', hours = Some (Fin (5 / 2)), note_e = ''''\<rparr>]"
  have p: "\<forall>e\<in>set ?es. csv_plain (date e) \<and> csv_plain (?ts (hours e))"
    by (simp add: csv_plain_def)
  have r: "\<forall>e\<in>set ?es. ?rd (?ts (hours e)) = hours e"
    by simp
  from C8_exportCSV_roundtrip[of ?ts ?es ?rd] p r
  have t: "exportCSV ?ts ?es
     = ''date,hours,note''
       @ concat (map (\<lambda>e. [CHR 0x0A] @ date e @ '','' @ ?ts (hours e) @ '','' @ [CHR 0x22]
                            @ escape_quotes (note_e e) @ [CHR 0x22]) ?es)"
    and m: "map (\<lambda>f. (f ! 0, ?rd (f ! 1), f ! 2)) (tl (parse_csv (exportCSV ?ts ?es)))
             = map (\<lambda>e. (date e, hours e, note_e e)) ?es"
    by blast+
  show ?thesis
    unfolding m using t by (simp add: escape_quotes_def)
qed

section \<open>Properties on doubles and stored values\<close>

lemmas fl_simps = fl_def expo_def pow2_def round_half_even_def compute_bitlen Let_def

lemmas num64_simps = StringToNumber64_def radix_literal_def radix_of_def radix_val_def
  trim_def is_ws_def unsigned_decimal_def exponent_part_def is_digit_def digits_val_def

lemma fl_zero: "fl 0 = dNum 0"
  by (simp add: fl_def)

text \<open>
  \<open>expo x\<close> is the binary exponent of \<open>x\<close>, and \<open>fl x\<close>, when finite, is a multiple of the unit
  with a significand of at most 53 bits that lies within half a unit of \<open>x\<close>.
\<close>

lemma pow2_nat: "0 \<le> k \<Longrightarrow> pow2 k = 2 ^ nat k"
  by (simp add: pow2_def)

lemma pow2_neg: "0 \<le> k \<Longrightarrow> pow2 (- k) = 1 / 2 ^ nat k"
  by (auto simp: pow2_def)

lemma pow2_powr: "pow2 k = 2 powr (of_int k)"
  by (auto simp: pow2_def powr_realpow[symmetric] powr_minus divide_inverse)

lemma expo_bounds:
  assumes "x \<noteq> 0"
  shows "pow2 (expo x) \<le> \<bar>x\<bar> \<and> \<bar>x\<bar> < pow2 (expo x + 1)"
proof (cases "1 \<le> \<bar>x\<bar>")
  case True
  let ?n = "\<lfloor>\<bar>x\<bar>\<rfloor>"
  have n: "0 < ?n" using True by linarith
  from bitlen_bounds[OF n] have b: "2 ^ nat (bitlen ?n - 1) \<le> ?n" "?n < 2 ^ nat (bitlen ?n)"
    by auto
  have b1: "1 \<le> bitlen ?n" using n by (auto simp: bitlen_alt_def)
  have lo: "(2::real) ^ nat (bitlen ?n - 1) \<le> \<bar>x\<bar>"
    using b(1) by (simp add: le_floor_iff)
  have hi: "\<bar>x\<bar> < (2::real) ^ nat (bitlen ?n)"
    using b(2) by (simp add: floor_less_iff)
  show ?thesis
    using True lo hi b1 by (simp add: expo_def pow2_def)
next
  case False
  let ?y = "1 / \<bar>x\<bar>"
  let ?m = "\<lceil>?y\<rceil> - 1"
  have x: "0 < \<bar>x\<bar>" "\<bar>x\<bar> < 1" using assms False by auto
  then have y: "1 < ?y" by simp
  then have m: "0 < ?m" by linarith
  from bitlen_bounds[OF m] have b: "2 ^ nat (bitlen ?m - 1) \<le> ?m" "?m < 2 ^ nat (bitlen ?m)"
    by auto
  have b1: "1 \<le> bitlen ?m" using m by (auto simp: bitlen_alt_def)
  have "\<lceil>?y\<rceil> \<le> 2 ^ nat (bitlen ?m)"
    using b(2) by linarith
  then have "?y \<le> 2 ^ nat (bitlen ?m)"
    by (simp add: ceiling_le_iff)
  then have lo: "1 / 2 ^ nat (bitlen ?m) \<le> \<bar>x\<bar>"
    using x(1) by (simp add: field_simps)
  have "2 ^ nat (bitlen ?m - 1) < \<lceil>?y\<rceil>"
    using b(1) by linarith
  then have "2 ^ nat (bitlen ?m - 1) < ?y"
    by (simp add: less_ceiling_iff)
  then have hi: "\<bar>x\<bar> < 1 / 2 ^ nat (bitlen ?m - 1)"
    using x(1) by (simp add: field_simps)
  have e: "expo x = - bitlen ?m"
    using False by (simp add: expo_def)
  have p1: "pow2 (- bitlen ?m) = 1 / 2 ^ nat (bitlen ?m)"
    using b1 by (intro pow2_neg) simp
  have p2: "pow2 (- bitlen ?m + 1) = 1 / 2 ^ nat (bitlen ?m - 1)"
    using b1 pow2_neg[of "bitlen ?m - 1"] by (simp add: algebra_simps)
  show ?thesis
    unfolding e p1 p2 using lo hi by simp
qed

lemma pow2_pos: "0 < pow2 k"
  by (simp add: pow2_def)

lemma pow2_add: "pow2 (a + b) = pow2 a * pow2 b"
  by (simp add: pow2_powr powr_add)

lemma round_half_even_near: "\<bar>real_of_int (round_half_even q) - q\<bar> \<le> 1 / 2"
  unfolding round_half_even_def Let_def by (auto; linarith)

lemma fl_near:
  assumes "fl x = dNum r"
  defines "u \<equiv> pow2 (max (expo x) (- 1022) - 52)"
  shows "\<bar>r - x\<bar> \<le> u / 2 \<and> (\<exists>m. r = real_of_int m * u \<and> \<bar>m\<bar> \<le> 2 ^ 53)"
proof (cases "x = 0")
  case True
  with assms(1) have "r = 0" by (simp add: fl_def)
  with True show ?thesis
    using pow2_pos[of "max (expo x) (- 1022) - 52"] by (auto simp: u_def intro: exI[of _ 0])
next
  case False
  let ?m = "round_half_even (x / u)"
  have up: "0 < u" by (simp add: u_def pow2_pos)
  have r: "r = real_of_int ?m * u"
    using assms(1) False by (auto simp: fl_def Let_def u_def split: if_splits)
  have "\<bar>real_of_int ?m - x / u\<bar> \<le> 1 / 2"
    by (rule round_half_even_near)
  then have "\<bar>real_of_int ?m - x / u\<bar> * u \<le> 1 / 2 * u"
    using up by (intro mult_right_mono) auto
  moreover have "\<bar>real_of_int ?m - x / u\<bar> * u = \<bar>r - x\<bar>"
  proof -
    have "(real_of_int ?m - x / u) * u = r - x"
      using up by (simp add: r left_diff_distrib)
    then have "\<bar>r - x\<bar> = \<bar>real_of_int ?m - x / u\<bar> * \<bar>u\<bar>"
      by (simp only: abs_mult[symmetric])
    then show ?thesis using up by simp
  qed
  ultimately have near: "\<bar>r - x\<bar> \<le> u / 2" by simp
  have "\<bar>x\<bar> < pow2 (expo x + 1)"
    using expo_bounds[OF False] by simp
  also have "pow2 (expo x + 1) \<le> pow2 (max (expo x) (- 1022) + 1)"
    by (simp add: pow2_powr)
  also have "\<dots> = pow2 53 * u"
    unfolding u_def pow2_add[symmetric] by (simp add: add.commute)
  finally have "\<bar>x / u\<bar> < 2 ^ 53"
    using up by (simp add: pow2_def field_simps abs_mult)
  then have "\<bar>real_of_int ?m\<bar> \<le> 2 ^ 53 + 1 / 2"
    using round_half_even_near[of "x / u"] by linarith
  then have "real_of_int \<bar>?m\<bar> < real_of_int (2 ^ 53 + 1)"
    by simp
  then have "\<bar>?m\<bar> < 2 ^ 53 + 1"
    by (simp only: of_int_less_iff)
  then have "\<bar>?m\<bar> \<le> 2 ^ 53"
    by simp
  with r near show ?thesis by blast
qed

text \<open>Some values of \<open>fl\<close> and of \<open>Number\<close> on strings, for reference.\<close>

lemma fl_examples:
  "fl (1 / 10) = dNum (3602879701896397 / 2 ^ 55)"
  "fl (5 / 2) = dNum (5 / 2)"
  "fl (2 ^ 1024) = dInf True"
  "fl (1 / 2 ^ 1075) = dNum 0"
  "fl (3 / 2 ^ 1075) = dNum (1 / 2 ^ 1073)"
  by (simp_all add: fl_simps)

lemma StringToNumber64_examples:
  "StringToNumber64 ''abc'' = dNaN"
  "StringToNumber64 '' 2.5 '' = dNum (5 / 2)"
  "StringToNumber64 ''0.1'' = dNum (3602879701896397 / 2 ^ 55)"
  "StringToNumber64 ''0x1F'' = dNum 31"
  "StringToNumber64 ''-Infinity'' = dInf False"
  "StringToNumber64 ''1e400'' = dInf True"
  by (simp_all add: num64_simps fl_simps)

subsection \<open>Total hours\<close>

lemma contribution_eq: "ToNumber64 (or_zero_v v) = contribution v"
  by (cases v rule: truthy_v.cases)
     (auto simp: or_zero_v_def contribution_def split: double.splits)

lemma totalHours64_contribution:
  "totalHours64 es = foldl fadd (dNum 0) (map (\<lambda>e. contribution (hours64 e)) es)"
  by (simp add: totalHours64_def contribution_eq foldl_map)

lemma foldl_fadd_NaN: "foldl fadd dNaN ds = dNaN"
  by (induction ds) simp_all

lemma fadd_NaN_right: "fadd s dNaN = dNaN"
  by (cases s) simp_all

lemma foldl_fadd_has_NaN: "dNaN \<in> set ds \<Longrightarrow> foldl fadd s ds = dNaN"
  by (induction ds arbitrary: s) (auto simp: foldl_fadd_NaN fadd_NaN_right)

lemma foldl_fadd_zeros: "\<forall>d\<in>set ds. d = dNum 0 \<Longrightarrow> foldl fadd (dNum 0) ds = dNum 0"
  by (induction ds) (simp_all add: fl_zero)

lemma falsy_contribution: "\<not> truthy_v v \<Longrightarrow> contribution v = dNum 0"
  by (cases v rule: truthy_v.cases) (auto simp: contribution_def split: double.splits)

text \<open>
  C7 as stated fails: an \<open>hours\<close> value that is a non-numeric string does not contribute zero.
  With the stored entries \<open>{hours: 2}\<close> and \<open>{hours: "abc"}\<close> the total is \<open>NaN\<close>, where the
  entry with 2 hours alone gives 2.
\<close>

theorem C7_non_numeric_string_counterexample:
  "totalHours64 [\<lparr>id64 = ''a'', date64 = ''2024-01-05'', hours64 = JNumber (dNum 2), note64 = ''''\<rparr>,
                 \<lparr>id64 = ''b'', date64 = ''2024-01-06'', hours64 = JString ''abc'', note64 = ''''\<rparr>]
     = dNaN
   \<and> totalHours64 [\<lparr>id64 = ''a'', date64 = ''2024-01-05'', hours64 = JNumber (dNum 2), note64 = ''''\<rparr>]
     = dNum 2"
  by (simp add: totalHours64_def or_zero_v_def num64_simps fl_simps)

text \<open>
  C7, amended: for every list of stored entries, \<open>totalHours\<close> is the sum, from left to right
  in double arithmetic, of what each \<open>hours\<close> value contributes: zero when it is missing,
  \<open>null\<close>, \<open>false\<close>, 0, \<open>NaN\<close> or the empty string, the number itself when it is a number, and
  the number that \<open>Number\<close> reads when it is a string. So the total is 0 when every value is
  missing or falsy, and it is \<open>NaN\<close> as soon as one value contributes \<open>NaN\<close>, as every
  non-numeric string does.
\<close>

theorem C7_totalHours_contributions:
  "totalHours64 es = foldl fadd (dNum 0) (map (\<lambda>e. contribution (hours64 e)) es)
   \<and> ((\<forall>e\<in>set es. \<not> truthy_v (hours64 e)) \<longrightarrow> totalHours64 es = dNum 0)
   \<and> ((\<exists>e\<in>set es. contribution (hours64 e) = dNaN) \<longrightarrow> totalHours64 es = dNaN)"
proof (intro conjI impI)
  show "totalHours64 es = foldl fadd (dNum 0) (map (\<lambda>e. contribution (hours64 e)) es)"
    by (rule totalHours64_contribution)
next
  assume "\<forall>e\<in>set es. \<not> truthy_v (hours64 e)"
  then have "\<forall>d\<in>set (map (\<lambda>e. contribution (hours64 e)) es). d = dNum 0"
    by (auto simp: falsy_contribution)
  then show "totalHours64 es = dNum 0"
    unfolding totalHours64_contribution by (rule foldl_fadd_zeros)
next
  assume "\<exists>e\<in>set es. contribution (hours64 e) = dNaN"
  then have "dNaN \<in> set (map (\<lambda>e. contribution (hours64 e)) es)"
    by force
  then show "totalHours64 es = dNaN"
    unfolding totalHours64_contribution by (rule foldl_fadd_has_NaN)
qed

text \<open>
  Four entries whose hours are \<open>null\<close>, \<open>NaN\<close>, missing and empty total 0; the hours \<open>"7.5"\<close>
  and \<open>"n/a"\<close> total \<open>NaN\<close>.
\<close>

theorem C7_totalHours_contributions_witness:
  "totalHours64 [\<lparr>id64 = ''a'', date64 = ''2024-01-05'', hours64 = JNull, note64 = ''''\<rparr>,
                 \<lparr>id64 = ''b'', date64 = ''2024-01-06'', hours64 = JNumber dNaN, note64 = ''''\<rparr>,
                 \<lparr>id64 = ''c'', date64 = ''2024-01-07'', hours64 = JUndefined, note64 = ''''\<rparr>,
                 \<lparr>id64 = ''d'', date64 = ''2024-01-08'', hours64 = JString '''', note64 = ''''\<rparr>]
     = dNum 0
   \<and> contribution (JString ''n/a'') = dNaN
   \<and> totalHours64 [\<lparr>id64 = ''a'', date64 = ''2024-01-05'', hours64 = JString ''7.5'', note64 = ''''\<rparr>,
                   \<lparr>id64 = ''b'', date64 = ''2024-01-06'', hours64 = JString ''n/a'', note64 = ''''\<rparr>]
     = dNaN"
proof -
  let ?z = "[\<lparr>id64 = ''a'', date64 = ''2024-01-05'', hours64 = JNull, note64 = ''''\<rparr>,
             \<lparr>id64 = ''b'', date64 = ''2024-01-06'', hours64 = JNumber dNaN, note64 = ''''\<rparr>,
             \<lparr>id64 = ''c'', date64 = ''2024-01-07'', hours64 = JUndefined, note64 = ''''\<rparr>,
             \<lparr>id64 = ''d'', date64 = ''2024-01-08'', hours64 = JString '''', note64 = ''''\<rparr>]"
  let ?n = "[\<lparr>id64 = ''a'', date64 = ''2024-01-05'', hours64 = JString ''7.5'', note64 = ''''\<rparr>,
             \<lparr>id64 = ''b'', date64 = ''2024-01-06'', hours64 = JString ''n/a'', note64 = ''''\<rparr>]"
  have c: "contribution (JString ''n/a'') = dNaN"
    by (simp add: contribution_def num64_simps)
  have z: "\<forall>e\<in>set ?z. \<not> truthy_v (hours64 e)"
    by simp
  have n: "\<exists>e\<in>set ?n. contribution (hours64 e) = dNaN"
    using c by simp
  from C7_totalHours_contributions[of ?z] z have "totalHours64 ?z = dNum 0"
    by blast
  moreover from C7_totalHours_contributions[of ?n] n have "totalHours64 ?n = dNaN"
    by blast
  ultimately show ?thesis
    using c by simp
qed

text \<open>
  On entries as the handlers write them (a finite number, or nothing), the contributions
  are the numbers of the exact model.
\<close>

lemma contribution_number:
  "contribution (JNumber (dNum x)) = dNum x" "contribution (JNumber dNaN) = dNum 0"
  "contribution JUndefined = dNum 0" "contribution JNull = dNum 0"
  by (simp_all add: contribution_def)

subsection \<open>Monthly chart series\<close>

lemma map_of_obj_set64: "map_of (obj_set64 mp k v) = (map_of mp)(k \<mapsto> v)"
  by (induction mp k v rule: obj_set64.induct) auto

lemma keys_obj_set64: "fst ` set (obj_set64 mp k v) = insert k (fst ` set mp)"
  by (induction mp k v rule: obj_set64.induct) auto

lemma distinct_obj_set64: "distinct (map fst mp) \<Longrightarrow> distinct (map fst (obj_set64 mp k v))"
  by (induction mp k v rule: obj_set64.induct) (auto simp: keys_obj_set64)

lemma or_zero64_zero: "or_zero64 (dNum 0) = dNum 0"
  by (simp add: or_zero64_def)

lemma opt_or_zero64_cur:
  "opt_or_zero64 (map_of mp k) = or_zero64 (case map_of mp k of None \<Rightarrow> dNum 0 | Some v \<Rightarrow> v)"
  by (cases "map_of mp k") (simp_all add: or_zero64_zero)

lemma chart_loop64_keys:
  "fst ` set (chartData_loop64 w mp es) = fst ` set mp \<union> month_key64 ` set es"
  unfolding chartData_loop64_def
  by (induction es arbitrary: mp) (auto simp: keys_obj_set64 month_key64_def Let_def)

lemma chart_loop64_distinct:
  "distinct (map fst mp) \<Longrightarrow> distinct (map fst (chartData_loop64 w mp es))"
  unfolding chartData_loop64_def
  by (induction es arbitrary: mp) (simp_all add: distinct_obj_set64 Let_def)

text \<open>
  The loop invariant: what a key holds at the end is the running total of its month, started
  from what the key held at the start (0 for a key that was absent).
\<close>

lemma chart_loop64_value:
  "(case map_of (chartData_loop64 w mp es) k of None \<Rightarrow> dNum 0 | Some v \<Rightarrow> v)
     = foldl (\<lambda>a e. fadd (or_zero64 a) (fmul (contribution (hours64 e)) (or_zero64 w)))
             (case map_of mp k of None \<Rightarrow> dNum 0 | Some v \<Rightarrow> v)
             (filter (\<lambda>e. month_key64 e = k) es)"
proof (induction es arbitrary: mp)
  case Nil
  show ?case by (simp add: chartData_loop64_def)
next
  case (Cons e es)
  let ?m = "take 7 (date64 e)"
  let ?mp = "obj_set64 mp ?m (fadd (opt_or_zero64 (map_of mp ?m))
                                   (fmul (ToNumber64 (or_zero_v (hours64 e))) (or_zero64 w)))"
  have step: "chartData_loop64 w mp (e # es) = chartData_loop64 w ?mp es"
    by (simp add: chartData_loop64_def Let_def)
  show ?case
    unfolding step Cons.IH
    by (simp add: map_of_obj_set64 month_key64_def contribution_eq opt_or_zero64_cur)
qed

lemma sort_distinct_eq:
  fixes xs :: "'a::linorder list"
  shows "distinct xs \<Longrightarrow> sort xs = sorted_list_of_set (set xs)"
  by (simp add: sorted_list_of_set_sort_remdups distinct_remdups_id)

text \<open>
  C2 as stated fails: the cent value is not the round-half-up of the month's sum. With one
  entry of 0.25 hours and the wage that typing 10.42 gives (the double nearest to 10.42),
  the month's sum is exactly a quarter of that double, 2.60499..., whose round-half-up to the
  cent is 2.60; the product of the sum and 100 rounds to the double 260.5, which
  \<open>Math.round\<close> takes to 261, and the series shows the double nearest to 2.61, which is not
  the double nearest to 2.60.
\<close>

theorem C2_cent_rounding_counterexample:
  "fl (1042 / 100) = dNum (5865938514650071 / 2 ^ 49)
   \<and> chartData64 [\<lparr>id64 = ''a'', date64 = ''2024-01-05'', hours64 = JNumber (dNum (1 / 4)),
                    note64 = ''''\<rparr>] (dNum (5865938514650071 / 2 ^ 49))
     = [\<lparr>month64 = ''2024-01'', earnings64 = dNum (5877197513718497 / 2 ^ 51)\<rparr>]
   \<and> fl (261 / 100) = dNum (5877197513718497 / 2 ^ 51)
   \<and> round_cent (1 / 4 * (5865938514650071 / 2 ^ 49)) = 260 / 100
   \<and> fl (round_cent (1 / 4 * (5865938514650071 / 2 ^ 49))) \<noteq> dNum (5877197513718497 / 2 ^ 51)"
  by (simp add: chartData64_def chartData_loop64_def or_zero_v_def or_zero64_def round_cent_def
      fl_simps)

text \<open>
  C2, amended: for every list of entries and every wage, the chart series has one point per
  year-month key (the first 7 characters of a date), in ascending order of the key, and the
  point of a key carries \<open>Math.round(s * 100) / 100\<close> in double arithmetic, where \<open>s\<close> is the
  running total of the month: its entries in store order, each adding
  \<open>Number(hours || 0) * Number(wage || 0)\<close> to \<open>(s || 0)\<close>. The halves that go up are those of the
  double \<open>s * 100\<close>, not of the sum itself. The series is a function of the entries and the
  wage, so equal inputs give equal series.
\<close>

theorem C2_chartData_groups:
  "chartData64 es w =
     map (\<lambda>k. \<lparr>month64 = k,
               earnings64 = fdiv (Math_round64 (fmul (month_acc64 es w k) (dNum 100))) (dNum 100)\<rparr>)
         (sorted_list_of_set (month_key64 ` set es))"
proof -
  let ?mp = "chartData_loop64 w [] es"
  have keys: "set (map fst ?mp) = month_key64 ` set es"
    using chart_loop64_keys[of w "[]" es] by simp
  have "distinct (map fst ?mp)"
    by (rule chart_loop64_distinct) simp
  then have srt: "sort (map fst ?mp) = sorted_list_of_set (month_key64 ` set es)"
    using keys by (simp add: sort_distinct_eq del: set_map)
  have val: "map_of ?mp k = Some (month_acc64 es w k)" if "k \<in> month_key64 ` set es" for k
  proof -
    from that keys have "k \<in> fst ` set ?mp" by simp
    then obtain v where v: "map_of ?mp k = Some v"
      by (cases "map_of ?mp k") (simp_all add: map_of_eq_None_iff)
    with chart_loop64_value[of w "[]" es k] show ?thesis
      by (simp add: month_acc64_def)
  qed
  show ?thesis
    unfolding chartData64_def Let_def srt
    by (rule map_cong) (simp_all add: val)
qed

text \<open>
  The example of the specification: 2 h and 3 h in January, 1 h in February, wage 10; and
  the example of 0.5 h at the wage typed as 2.01, which shows 1 where the decimal product
  1.005 would round to 1.01.
\<close>

lemma chartData64_example:
  "chartData64 [\<lparr>id64 = ''a'', date64 = ''2024-01-05'', hours64 = JNumber (dNum 2), note64 = ''''\<rparr>,
                \<lparr>id64 = ''b'', date64 = ''2024-01-20'', hours64 = JNumber (dNum 3), note64 = ''''\<rparr>,
                \<lparr>id64 = ''c'', date64 = ''2024-02-01'', hours64 = JNumber (dNum 1), note64 = ''''\<rparr>]
     (dNum 10)
   = [\<lparr>month64 = ''2024-01'', earnings64 = dNum 50\<rparr>,
      \<lparr>month64 = ''2024-02'', earnings64 = dNum 10\<rparr>]"
  by (simp add: chartData64_def chartData_loop64_def or_zero_v_def or_zero64_def fl_simps)

lemma chartData64_half_hour_example:
  "chartData64 [\<lparr>id64 = ''a'', date64 = ''2024-01-05'', hours64 = JNumber (dNum (1 / 2)),
                  note64 = ''''\<rparr>] (StringToNumber64 ''2.01'')
   = [\<lparr>month64 = ''2024-01'', earnings64 = dNum 1\<rparr>]"
  by (simp add: chartData64_def chartData_loop64_def or_zero_v_def or_zero64_def num64_simps
      fl_simps)

subsection \<open>Wishlist projection\<close>

text \<open>
  C4 as stated fails: the week count is not the ceiling of \<open>needed / weeklyAverage\<close>. With the
  price, the spendable amount and the weekly average that typing 398.3, 77.24 and 321.06
  gives, the difference of the first two rounds to the third, the quotient is the double 1
  and the item gets 1 week, where the quotient of the exact difference is above 1 and its
  ceiling is 2.
\<close>

theorem C4_ceiling_counterexample:
  "fl (3983 / 10) = dNum (7006967701490893 / 2 ^ 44)
   \<and> fl (7724 / 100) = dNum (5435281800282767 / 2 ^ 46)
   \<and> fl (32106 / 100) = dNum (5648147251420201 / 2 ^ 44)
   \<and> map weeksNeeded64
       (wishlistWithTime64
          [\<lparr>id_w64 = ''w1'', name64 = ''Bike'',
             price64 = JNumber (dNum (7006967701490893 / 2 ^ 44))\<rparr>]
          (dNum (5435281800282767 / 2 ^ 46)) (dNum (5648147251420201 / 2 ^ 44)))
     = [dNum 1]
   \<and> \<lceil>(7006967701490893 / 2 ^ 44 - 5435281800282767 / 2 ^ 46)
        / (5648147251420201 / 2 ^ 44 :: real)\<rceil> = 2"
  by (simp add: wishlistWithTime64_def fsub_def fl_simps)

text \<open>
  C4, amended: for every wishlist item, with \<open>needed = price - spendable\<close> computed in double
  arithmetic, the annotation \<open>weeksNeeded\<close> is \<open>Math.ceil(needed / weeklyAverage)\<close>, the ceiling
  of the double quotient, if \<open>needed > 0\<close> and \<open>weeklyAverage > 0\<close>, and 0 otherwise; the other
  fields of the item are copied. The difference and the quotient are each rounded to the
  nearest double before the ceiling is taken.
\<close>

theorem C4_weeksNeeded_doubles:
  "map weeksNeeded64 (wishlistWithTime64 ws sp wa)
     = map (\<lambda>i. if fgt (fsub (ToNumber64 (price64 i)) sp) (dNum 0) \<and> fgt wa (dNum 0)
                 then Math_ceil64 (fdiv (fsub (ToNumber64 (price64 i)) sp) wa) else dNum 0) ws
   \<and> map weeksNeeded64
       (wishlistWithTime64 [\<lparr>id_w64 = i, name64 = n, price64 = JNumber (dNum p)\<rparr>] (dNum s) (dNum a))
     = [case fl (p - s) of
          dNum d \<Rightarrow> if 0 < d \<and> 0 < a then Math_ceil64 (fl (d / a)) else dNum 0
        | dInf b \<Rightarrow> if b \<and> 0 < a then dInf True else dNum 0
        | dNaN \<Rightarrow> dNum 0]
   \<and> map id_w64 (wishlistWithTime64 ws sp wa) = map id_w64 ws
   \<and> map name64 (wishlistWithTime64 ws sp wa) = map name64 ws
   \<and> map price64 (wishlistWithTime64 ws sp wa) = map price64 ws"
  by (auto simp: wishlistWithTime64_def Let_def comp_def fsub_def split: double.splits)

text \<open>
  The examples of the specification (40 spendable, weekly average 20: an item of 100 needs 3
  weeks, an item of 30 none), and the item of 345 with 1.15 spendable and a weekly average
  of 1.15, which gets 300 weeks where the decimal quotient is 299.
\<close>

lemma wishlist64_example:
  "map weeksNeeded64
     (wishlistWithTime64 [\<lparr>id_w64 = ''a'', name64 = ''x'', price64 = JNumber (dNum 100)\<rparr>,
                          \<lparr>id_w64 = ''b'', name64 = ''y'', price64 = JNumber (dNum 30)\<rparr>]
        (dNum 40) (dNum 20))
   = [dNum 3, dNum 0]"
  by (simp add: wishlistWithTime64_def fsub_def fl_simps)

lemma wishlist64_typed_example:
  "map weeksNeeded64
     (wishlistWithTime64 [\<lparr>id_w64 = ''a'', name64 = ''x'', price64 = JNumber (dNum 345)\<rparr>]
        (StringToNumber64 ''1.15'') (StringToNumber64 ''1.15''))
   = [dNum 300]"
  by (simp add: wishlistWithTime64_def fsub_def num64_simps fl_simps)

end
